theory Spec2Isabelle
  imports Main "HOL-Library.Word"
begin

section \<open>The news aggregation pipeline of newsService.ts\<close>

text \<open>
  This theory embeds \<^verbatim>\<open>src/vhembe-financial-times/newsService.ts\<close>: the placeholder
  hash, the two keyword classifiers, the normalisation of one raw feed item, the merge of
  fresh and archived articles, the retention filter, the sort, the save with its retry,
  and the top-level handler of \<^verbatim>\<open>fetchMarketNews\<close>.

  Conventions of the embedding.
  \<^item> A JavaScript string is a \<open>string\<close>; a character stands for the code unit of the
    same number, so the text covered is the one whose code units are below 256. The
    placeholder hash alone is stated on sequences of code units and covers every string.
  \<^item> A value that may be \<^verbatim>\<open>undefined\<close> is an \<open>option\<close>; \<^verbatim>\<open>undefined\<close> and the
    empty string are the falsy strings.
  \<^item> A \<^verbatim>\<open>number\<close> holding epoch milliseconds is an \<open>int option\<close>, \<open>None\<close> being
    \<^verbatim>\<open>NaN\<close> (the time value of an invalid \<^verbatim>\<open>Date\<close>).
  \<^item> A thrown exception is the \<open>Inl\<close> of a sum; a rejected promise of
    \<^verbatim>\<open>fetchMarketNews\<close> is an \<open>Inl\<close> result.
  \<^item> What the browser supplies (the clock, \<^verbatim>\<open>Date\<close> parsing and formatting, the
    network, \<^verbatim>\<open>localStorage\<close> and its quota) is a parameter of the model.
  \<^item> The function is given twice: on replies and archives of the shape that the feed
    service and the function's own writes have (\<open>fetchMarketNews\<close>), and on replies
    and archives of any shape (\<open>fetchMarketNewsAny\<close>), where the loop over the items and
    the loop over the archive can throw \<^verbatim>\<open>TypeError\<close>. The second is the first on inputs
    of that shape.
\<close>

subsection \<open>Strings\<close>

definition lowerChar :: "char \<Rightarrow> char" where
  \<comment> \<open>\<^verbatim>\<open>toLowerCase\<close> on one code unit below 256: A-Z and the accented capitals
      0xC0-0xDE (without the multiplication sign 0xD7) move up by 32.\<close>
  "lowerChar c =
     (let n = (of_char c :: nat)
      in if (65 \<le> n \<and> n \<le> 90) \<or> (192 \<le> n \<and> n \<le> 222 \<and> n \<noteq> 215)
         then char_of (n + 32) else c)"

definition toLowerCase :: "string \<Rightarrow> string" where
  "toLowerCase s = map lowerChar s"

fun startsWith :: "string \<Rightarrow> string \<Rightarrow> bool" where
  "startsWith s [] = True"
| "startsWith [] (w # ws) = False"
| "startsWith (c # cs) (w # ws) = (c = w \<and> startsWith cs ws)"

fun includesStr :: "string \<Rightarrow> string \<Rightarrow> bool" where
  \<comment> \<open>\<^verbatim>\<open>t.includes(w)\<close>: \<open>w\<close> occurs in \<open>t\<close> at some position.\<close>
  "includesStr [] w = (w = [])"
| "includesStr (c # cs) w = (startsWith (c # cs) w \<or> includesStr cs w)"

definition truthy :: "string option \<Rightarrow> bool" where
  "truthy v = (case v of None \<Rightarrow> False | Some s \<Rightarrow> s \<noteq> [])"

definition orElse :: "string option \<Rightarrow> string option \<Rightarrow> string option" where
  \<comment> \<open>\<^verbatim>\<open>a || b\<close> on possibly undefined strings.\<close>
  "orElse a b = (if truthy a then a else b)"

definition interpolate :: "string option \<Rightarrow> string" where
  \<comment> \<open>A possibly undefined string inside a template literal or a \<^verbatim>\<open>+\<close>.\<close>
  "interpolate v = (case v of None \<Rightarrow> ''undefined'' | Some s \<Rightarrow> s)"

subsection \<open>Configuration\<close>

definition ONE_WEEK_MS :: int where
  "ONE_WEEK_MS = 7 * 24 * 60 * 60 * 1000"

record feed_source =
  feed_url :: string
  feed_category :: string
  sourceName :: string
  priority :: nat

definition FEED_SOURCES :: "feed_source list" where
  "FEED_SOURCES =
     [\<lparr>feed_url = ''https://www.forexlive.com/feed'', feed_category = ''Sentiment'',
        sourceName = ''ForexLive'', priority = 1\<rparr>,
      \<lparr>feed_url = ''https://www.fxstreet.com/rss/news'', feed_category = ''Squawk'',
        sourceName = ''FXStreet'', priority = 2\<rparr>,
      \<lparr>feed_url = ''https://feeds.finance.yahoo.com/rss/2.0/headline?s=EURUSD=X,GBPUSD=X,JPY=X,BTC-USD,GC=F'',
        feed_category = ''Markets'', sourceName = ''Yahoo Finance'', priority = 3\<rparr>,
      \<lparr>feed_url = ''https://cointelegraph.com/rss'', feed_category = ''Crypto'',
        sourceName = ''CoinTelegraph'', priority = 4\<rparr>]"

definition FALLBACK_IMAGES :: "string list" where
  "FALLBACK_IMAGES =
     [''https://images.unsplash.com/photo-1611974765270-ca1258634369?auto=format&fit=crop&q=80&w=1000'',
      ''https://images.unsplash.com/photo-1590283603385-17ffb3a7f29f?auto=format&fit=crop&q=80&w=1000'',
      ''https://images.unsplash.com/photo-1642543492481-44e81e3914a7?auto=format&fit=crop&q=80&w=1000'',
      ''https://images.unsplash.com/photo-1621504450168-38f647319680?auto=format&fit=crop&q=80&w=1000'',
      ''https://images.unsplash.com/photo-1614028674026-a65e31bfd27c?auto=format&fit=crop&q=80&w=1000'',
      ''https://images.unsplash.com/photo-1565514020176-dbf22384914e?auto=format&fit=crop&q=80&w=1000'',
      ''https://images.unsplash.com/photo-1526304640152-d4619684e484?auto=format&fit=crop&q=80&w=1000'']"

subsection \<open>The placeholder image\<close>

definition shl5 :: "int \<Rightarrow> int" where
  \<comment> \<open>\<^verbatim>\<open>hash << 5\<close>: the operand is taken modulo \<open>2^32\<close>, shifted in 32 bits, and the
      result read as a signed 32-bit integer.\<close>
  "shl5 h = sint (push_bit 5 (word_of_int h :: 32 word))"

type_synonym code_units = "nat list"

definition codeUnits :: "string \<Rightarrow> code_units" where
  \<comment> \<open>The code units of a text of this model.\<close>
  "codeUnits s = map of_char s"

definition charCodeAt :: "code_units \<Rightarrow> nat \<Rightarrow> int" where
  "charCodeAt s i = int (s ! i)"

function hashLoop :: "code_units \<Rightarrow> nat \<Rightarrow> int \<Rightarrow> int" where
  \<comment> \<open>The \<^verbatim>\<open>for\<close> loop of \<^verbatim>\<open>getFallbackImage\<close>, from index \<open>i\<close> with the value
      \<open>hash\<close>. The subtraction and the addition are those of \<^verbatim>\<open>number\<close>; only the
      shift wraps.\<close>
  "hashLoop seed i hash =
     (if i < length seed
      then hashLoop seed (i + 1) (charCodeAt seed i + (shl5 hash - hash))
      else hash)"
  by pat_completeness auto
termination
  by (relation "measure (\<lambda>(seed, i, hash). length seed - i)") auto

declare hashLoop.simps [simp del]

definition getFallbackImage :: "code_units \<Rightarrow> string" where
  \<comment> \<open>The seed is taken as its sequence of UTF-16 code units, which is all the function
      reads of it; every JavaScript string is such a sequence.\<close>
  "getFallbackImage seed =
     FALLBACK_IMAGES ! nat (\<bar>hashLoop seed 0 0\<bar> mod int (length FALLBACK_IMAGES))"

text \<open>
  The hash as the specification words it: per character,
  \<^verbatim>\<open>hash = char_code + ((hash << 5) - hash)\<close>, starting from 0; the palette index is the
  absolute value reduced modulo the palette size.
\<close>

definition spec_hash_step :: "int \<Rightarrow> int \<Rightarrow> int" where
  "spec_hash_step hash char_code = char_code + (shl5 hash - hash)"

definition spec_hash :: "code_units \<Rightarrow> int" where
  "spec_hash seed = foldl spec_hash_step 0 (map int seed)"

definition spec_placeholder_index :: "code_units \<Rightarrow> nat" where
  "spec_placeholder_index seed = nat (\<bar>spec_hash seed\<bar> mod int (length FALLBACK_IMAGES))"

subsection \<open>The signal classifiers\<close>

datatype sentiment = Bullish | Bearish | Neutral

definition bullish :: "string list" where
  "bullish = [''soars'', ''jumps'', ''rallies'', ''gains'', ''bull'', ''buy'',
     ''support hold'', ''breakout'', ''higher'', ''hawkish'', ''beats'', ''positive'',
     ''upgrade'', ''surges'', ''records'', ''recovers'', ''record high'']"

definition bearish :: "string list" where
  "bearish = [''plunges'', ''dives'', ''drops'', ''falls'', ''bear'', ''sell'',
     ''resistance'', ''breakdown'', ''lower'', ''dovish'', ''misses'', ''negative'',
     ''downgrade'', ''retreats'', ''crash'', ''sinks'', ''lows'']"

definition analyzeSentiment :: "string \<Rightarrow> sentiment" where
  "analyzeSentiment text =
     (let t = toLowerCase text
      in if list_ex (\<lambda>w. includesStr t w) bullish then Bullish
         else if list_ex (\<lambda>w. includesStr t w) bearish then Bearish
         else Neutral)"

definition highImpactKeywords :: "string list" where
  "highImpactKeywords = [''fed '', ''federal reserve'', ''fomc'', ''powell'',
     ''ecb'', ''lagarde'', ''boj'', ''ueda'',
     ''cpi'', ''nfp'', ''rate decision'', ''hike'', ''cut'', ''rates'',
     ''breaking'', ''urgent'', ''alert'', ''war'', ''invasion'']"

definition checkForBreakingContext :: "string \<Rightarrow> bool" where
  "checkForBreakingContext text =
     (let t = toLowerCase text in list_ex (\<lambda>k. includesStr t k) highImpactKeywords)"

subsection \<open>The platform\<close>

record platform =
  dateParse :: "string \<Rightarrow> int option"
  clock :: int
  localDay :: "int \<Rightarrow> int \<times> int \<times> int"
  toLocaleTimeString :: "int \<Rightarrow> string"
  toLocaleDateString :: "int \<Rightarrow> string"

text \<open>
  \<open>dateParse\<close> is the time value of \<^verbatim>\<open>new Date(s)\<close> for a string (\<open>None\<close> when the
  string does not parse), \<open>clock\<close> the instant of the run (\<^verbatim>\<open>Date.now()\<close> and
  \<^verbatim>\<open>new Date()\<close>), \<open>localDay\<close> the triple \<^verbatim>\<open>getDate\<close>, \<^verbatim>\<open>getMonth\<close>,
  \<^verbatim>\<open>getFullYear\<close> of an instant in the local zone, and the last two the locale's
  renderings.
\<close>

definition newDate :: "platform \<Rightarrow> string option \<Rightarrow> int option" where
  \<comment> \<open>\<^verbatim>\<open>new Date(item.pubDate).getTime()\<close>; a missing date gives an invalid \<^verbatim>\<open>Date\<close>.\<close>
  "newDate p d = (case d of None \<Rightarrow> None | Some s \<Rightarrow> dateParse p s)"

definition formatTime :: "platform \<Rightarrow> int option \<Rightarrow> string" where
  \<comment> \<open>On an invalid \<^verbatim>\<open>Date\<close> every getter is \<^verbatim>\<open>NaN\<close>, \<^verbatim>\<open>isToday\<close> is false and
      \<^verbatim>\<open>toLocaleDateString\<close> answers "Invalid Date".\<close>
  "formatTime p date =
     (case date of
        None \<Rightarrow> ''Invalid Date''
      | Some t \<Rightarrow>
          if localDay p t = localDay p (clock p) then toLocaleTimeString p t
          else toLocaleDateString p t)"

subsection \<open>Normalising one raw item\<close>

record raw_item =
  title :: "string option"
  description :: "string option"
  content :: "string option"
  pubDate :: "string option"
  link :: "string option"
  guid :: "string option"
  thumbnail :: "string option"
  enclosure_link :: "string option"
  item_author :: "string option"

record article =
  ident :: string
  headline :: "string option"
  summary :: string
  category :: string
  publishedAt :: "int option"
  timestamp :: string
  author :: string
  imageUrl :: "string option"
  url :: "string option"
  fullContent :: "string option"
  isBreaking :: "bool option"
  sentiment :: "sentiment option"

text \<open>
  \<open>raw_item\<close> is the item of the feed-to-JSON service with every field optional;
  \<open>enclosure_link\<close> is \<^verbatim>\<open>item.enclosure?.link\<close>. \<open>article\<close> is the interface
  \<^verbatim>\<open>NewsArticle\<close>; its field \<^verbatim>\<open>id\<close> is called \<open>ident\<close> here, and \<open>headline\<close> is
  optional because the code copies a possibly missing \<^verbatim>\<open>item.title\<close> into it. The
  optional field \<^verbatim>\<open>liquidityLevels\<close> of the interface, which this file never sets or
  reads, is left out.
\<close>

fun stripTags :: "bool \<Rightarrow> string \<Rightarrow> string" where
  \<comment> \<open>\<^verbatim>\<open>.replace(/<[^>]*>?/gm, '')\<close> as a scanner; the flag says that a \<open><\<close> has been
      read and its \<open>>\<close> not yet. A tag left open runs to the end of the text.\<close>
  "stripTags inTag [] = []"
| "stripTags False (c # cs) =
     (if c = CHR ''<'' then stripTags True cs else c # stripTags False cs)"
| "stripTags True (c # cs) =
     (if c = CHR ''>'' then stripTags False cs else stripTags True cs)"

fun replaceNbsp :: "string \<Rightarrow> string" where
  \<comment> \<open>\<^verbatim>\<open>.replace(/&nbsp;/g, ' ')\<close>, occurrences taken from the left.\<close>
  "replaceNbsp [] = []"
| "replaceNbsp (c # cs) =
     (if startsWith (c # cs) ''&nbsp;'' then CHR '' '' # replaceNbsp (drop 5 cs)
      else c # replaceNbsp cs)"

definition cleanText :: "string \<Rightarrow> string" where
  \<comment> \<open>The description with tags stripped, the entity replaced, cut to 250 characters.\<close>
  "cleanText d = take 250 (replaceNbsp (stripTags False d))"

definition summaryClean :: "string option \<Rightarrow> string" where
  "summaryClean d =
     (case d of
        None \<Rightarrow> []
      | Some s \<Rightarrow> if s = [] then [] else cleanText s @ ''...'')"

definition isQuote :: "char \<Rightarrow> bool" where
  "isQuote c = (c = CHR 0x22 \<or> c = CHR 0x27)"

definition srcAt :: "string \<Rightarrow> string option" where
  \<comment> \<open>A match of \<^verbatim>\<open>src=["']([^"']*)["']\<close> at the head of the text: its group.\<close>
  "srcAt s =
     (if startsWith s ''src='' then
        (case drop 4 s of
           [] \<Rightarrow> None
         | q # r \<Rightarrow>
             if isQuote q \<and> dropWhile (\<lambda>c. \<not> isQuote c) r \<noteq> []
             then Some (takeWhile (\<lambda>c. \<not> isQuote c) r) else None)
      else None)"

fun matchSrc :: "string \<Rightarrow> string option" where
  \<comment> \<open>\<^verbatim>\<open>s.match(/src=["']([^"']*)["']/)\<close>: the group of the leftmost match.\<close>
  "matchSrc [] = None"
| "matchSrc (c # cs) =
     (case srcAt (c # cs) of Some u \<Rightarrow> Some u | None \<Rightarrow> matchSrc cs)"

definition extractImage :: "raw_item \<Rightarrow> string option" where
  \<comment> \<open>Lines 103-108: thumbnail, else enclosure link, else the first \<^verbatim>\<open>src\<close> attribute of
      the content or, failing that, of the description.\<close>
  "extractImage item =
     (let imageUrl = thumbnail item;
          imageUrl = (if \<not> truthy imageUrl \<and> truthy (enclosure_link item)
                      then enclosure_link item else imageUrl)
      in if \<not> truthy imageUrl then
           (let imgMatch =
                  (case (case content item of None \<Rightarrow> None | Some s \<Rightarrow> matchSrc s) of
                     Some m \<Rightarrow> Some m
                   | None \<Rightarrow> (case description item of None \<Rightarrow> None | Some s \<Rightarrow> matchSrc s))
            in case imgMatch of Some m \<Rightarrow> Some m | None \<Rightarrow> imageUrl)
         else imageUrl)"

definition uniqueId :: "feed_source \<Rightarrow> raw_item \<Rightarrow> string" where
  "uniqueId config item =
     (case orElse (guid item) (link item) of
        Some s \<Rightarrow> if s = [] then sourceName config @ ''-'' @ interpolate (title item) else s
      | None \<Rightarrow> sourceName config @ ''-'' @ interpolate (title item))"

definition needsFallback :: "string option \<Rightarrow> bool" where
  \<comment> \<open>Line 118: no image found, or one from a feed-burner or an ad address.\<close>
  "needsFallback found =
     (case found of
        None \<Rightarrow> True
      | Some u \<Rightarrow> u = [] \<or> includesStr u ''feedburner'' \<or> includesStr u ''ads'')"

definition normalise :: "platform \<Rightarrow> feed_source \<Rightarrow> raw_item \<Rightarrow> article" where
  \<comment> \<open>The body of \<^verbatim>\<open>items.forEach\<close>, lines 102-137: the article pushed for one item.\<close>
  "normalise p config item =
     (let found = extractImage item;
          summaryC = summaryClean (description item);
          uid = uniqueId config item;
          pubD = newDate p (pubDate item);
          image =
            (if needsFallback found
             then Some (getFallbackImage
                          (codeUnits
                             (case title item of
                                None \<Rightarrow> uid
                              | Some t \<Rightarrow> if t = [] then uid else t)))
             else found);
          textContent = interpolate (title item) @ '' '' @ summaryC
      in \<lparr>ident = uid,
          headline = title item,
          summary = summaryC,
          category = feed_category config,
          publishedAt = pubD,
          timestamp = formatTime p pubD,
          author = (case item_author item of
                      None \<Rightarrow> sourceName config
                    | Some a \<Rightarrow> if a = [] then sourceName config else a),
          imageUrl = image,
          url = link item,
          fullContent = orElse (content item) (description item),
          isBreaking = Some (checkForBreakingContext textContent),
          sentiment = Some (analyzeSentiment textContent)\<rparr>)"

subsection \<open>Fetching the feeds\<close>

datatype response =
    NetworkError
  | MalformedJson
  | Body "string option" "raw_item list option"

text \<open>
  What one request ends in: \<open>NetworkError\<close> when \<^verbatim>\<open>fetch\<close> rejects, \<open>MalformedJson\<close>
  when \<^verbatim>\<open>res.json()\<close> rejects, and otherwise \<open>Body status items\<close> with the two
  fields the code reads from the parsed body. A reply with a failing HTTP status still
  resolves, so it is a \<open>MalformedJson\<close> or a \<open>Body\<close> too. The network is a function
  of the feed's address: the request address is built from it one to one.

  The body is typed here as the contract of the feed-to-JSON service has it:
  \<^verbatim>\<open>status\<close> is a string or missing, \<^verbatim>\<open>items\<close> is a list of items or missing, and
  the fields of an item are strings or missing. The definitions of this and the next
  three subsections are the function on inputs of that shape. Bodies and archives of
  another shape, on which the code throws \<^verbatim>\<open>TypeError\<close>, come after them, in the
  subsection on inputs of any shape.
\<close>

type_synonym network = "string \<Rightarrow> response"

type_synonym feed_result = "string option \<times> raw_item list \<times> feed_source"

definition fetchFeed :: "network \<Rightarrow> feed_source \<Rightarrow> feed_result" where
  \<comment> \<open>Lines 90-93: one promise of \<^verbatim>\<open>feedPromises\<close>, with its \<^verbatim>\<open>catch\<close>.\<close>
  "fetchFeed net src =
     (case net (feed_url src) of
        NetworkError \<Rightarrow> (Some ''error'', [], src)
      | MalformedJson \<Rightarrow> (Some ''error'', [], src)
      | Body status items \<Rightarrow>
          (status, (case items of None \<Rightarrow> [] | Some l \<Rightarrow> l), src))"

definition pushItems :: "platform \<Rightarrow> article list \<Rightarrow> feed_result \<Rightarrow> article list" where
  \<comment> \<open>Lines 99-140: one round of \<^verbatim>\<open>results.forEach\<close> on the list built so far.\<close>
  "pushItems p fresh r =
     (case r of
        (status, items, config) \<Rightarrow>
          if status = Some ''ok''
          then foldl (\<lambda>acc item. acc @ [normalise p config item]) fresh items
          else fresh)"

definition collectFresh :: "platform \<Rightarrow> network \<Rightarrow> feed_source list \<Rightarrow> article list" where
  \<comment> \<open>\<^verbatim>\<open>Promise.all\<close> keeps the order of the sources, whatever the order of arrival.\<close>
  "collectFresh p net sources = foldl (pushItems p) [] (map (fetchFeed net) sources)"

definition freshArticles :: "platform \<Rightarrow> network \<Rightarrow> article list" where
  "freshArticles p net = collectFresh p net FEED_SOURCES"

subsection \<open>The archive in local storage\<close>

datatype slot = Absent | Corrupt | Stored "article list"

datatype error = SyntaxError | QuotaExceededError | TypeError

record storage =
  slot :: slot
  quota :: "article list \<Rightarrow> bool"
  writes :: "article list list"

text \<open>
  \<open>slot\<close> is what lies under the key \<^verbatim>\<open>vhembe_news_archive_v2\<close>: nothing or the empty
  string (\<open>Absent\<close>, both falsy), a text that \<^verbatim>\<open>JSON.parse\<close> rejects (\<open>Corrupt\<close>), or
  the serialisation of a list of articles. \<open>quota\<close> says for which lists
  \<^verbatim>\<open>setItem\<close> succeeds. \<open>writes\<close> records the lists \<^verbatim>\<open>setItem\<close> was called with, in
  order; the code does not read it.
\<close>

definition readArchive :: "storage \<Rightarrow> error + article list" where
  \<comment> \<open>\<^verbatim>\<open>stored ? JSON.parse(stored) : []\<close> after \<^verbatim>\<open>getItem\<close>.\<close>
  "readArchive st =
     (case slot st of
        Absent \<Rightarrow> Inr []
      | Corrupt \<Rightarrow> Inl SyntaxError
      | Stored xs \<Rightarrow> Inr xs)"

definition loadArchive :: "storage \<Rightarrow> article list" where
  \<comment> \<open>Lines 143-149: the read inside its own \<^verbatim>\<open>try\<close>; a failure leaves the empty list.\<close>
  "loadArchive st = (case readArchive st of Inl e \<Rightarrow> [] | Inr xs \<Rightarrow> xs)"

definition setItem :: "storage \<Rightarrow> article list \<Rightarrow> (error + unit) \<times> storage" where
  "setItem st xs =
     (if quota st xs
      then (Inr (), st\<lparr>slot := Stored xs, writes := writes st @ [xs]\<rparr>)
      else (Inl QuotaExceededError, st\<lparr>writes := writes st @ [xs]\<rparr>))"

subsection \<open>Merge, retention, order\<close>

type_synonym articleMap = "(string \<times> article) list"

fun mapSet :: "string \<Rightarrow> article \<Rightarrow> articleMap \<Rightarrow> articleMap" where
  \<comment> \<open>\<^verbatim>\<open>Map.prototype.set\<close>: a key already present keeps its place and takes the new
      value, a new key goes to the end.\<close>
  "mapSet k v [] = [(k, v)]"
| "mapSet k v ((k', v') # m) =
     (if k' = k then (k, v) # m else (k', v') # mapSet k v m)"

definition setAll :: "article list \<Rightarrow> articleMap \<Rightarrow> articleMap" where
  \<comment> \<open>\<^verbatim>\<open>xs.forEach(a => articleMap.set(a.id, a))\<close>\<close>
  "setAll xs m = foldl (\<lambda>m a. mapSet (ident a) a m) m xs"

definition mapValues :: "articleMap \<Rightarrow> article list" where
  "mapValues m = map snd m"

definition retained :: "int \<Rightarrow> article \<Rightarrow> bool" where
  \<comment> \<open>\<^verbatim>\<open>a.publishedAt > cutoff\<close>; a comparison with \<^verbatim>\<open>NaN\<close> is false.\<close>
  "retained cutoff a = (case publishedAt a of None \<Rightarrow> False | Some t \<Rightarrow> cutoff < t)"

definition millis :: "article \<Rightarrow> int" where
  \<comment> \<open>The sort key. The sort only sees articles that passed \<open>retained\<close>, so the value
      given to \<^verbatim>\<open>NaN\<close> is never used.\<close>
  "millis a = (case publishedAt a of None \<Rightarrow> 0 | Some t \<Rightarrow> t)"

definition buildMap :: "article list \<Rightarrow> article list \<Rightarrow> articleMap" where
  \<comment> \<open>Lines 152-157: the archive goes in first, the fresh articles after it.\<close>
  "buildMap archivedArticles fresh = setAll fresh (setAll archivedArticles [])"

definition mergeArticles :: "int \<Rightarrow> article list \<Rightarrow> article list \<Rightarrow> article list" where
  \<comment> \<open>Lines 152-163. On numbers the comparator \<^verbatim>\<open>b.publishedAt - a.publishedAt\<close> is a
      consistent order and \<^verbatim>\<open>Array.prototype.sort\<close> is stable: the result is the stable
      sort by descending \<^verbatim>\<open>publishedAt\<close>.\<close>
  "mergeArticles now archivedArticles fresh =
     (let articleMap = buildMap archivedArticles fresh;
          cutoff = now - ONE_WEEK_MS
      in sort_key (\<lambda>a. - millis a) (filter (retained cutoff) (mapValues articleMap)))"

subsection \<open>Saving and returning\<close>

text \<open>
  On inputs of the contract's shape nothing before the save throws: each promise has
  its own \<^verbatim>\<open>catch\<close>, an unparseable date gives an invalid \<^verbatim>\<open>Date\<close> and no exception,
  and the read of the archive stands in its own \<^verbatim>\<open>try\<close>. The exception that can leave
  the body of the outer \<^verbatim>\<open>try\<close> is then the one of the second \<^verbatim>\<open>setItem\<close>.
\<close>

definition saveArchive :: "storage \<Rightarrow> article list \<Rightarrow> (error + unit) \<times> storage" where
  \<comment> \<open>Lines 166-174. The second \<^verbatim>\<open>setItem\<close> stands in the \<^verbatim>\<open>catch\<close> block, outside
      any \<^verbatim>\<open>try\<close> of its own: what it throws leaves the block.\<close>
  "saveArchive st mergedArticles =
     (case setItem st mergedArticles of
        (Inr u, st1) \<Rightarrow> (Inr (), st1)
      | (Inl e, st1) \<Rightarrow>
          if 200 < length mergedArticles
          then setItem st1 (take 200 mergedArticles)
          else (Inr (), st1))"

definition mergedOf :: "platform \<Rightarrow> network \<Rightarrow> storage \<Rightarrow> article list" where
  \<comment> \<open>\<^verbatim>\<open>mergedArticles\<close> as line 161 binds it.\<close>
  "mergedOf p net st = mergeArticles (clock p) (loadArchive st) (freshArticles p net)"

definition tryBody :: "platform \<Rightarrow> network \<Rightarrow> storage \<Rightarrow> (error + article list) \<times> storage" where
  \<comment> \<open>Lines 88-176, the body of the outer \<^verbatim>\<open>try\<close>.\<close>
  "tryBody p net st =
     (let mergedArticles = mergedOf p net st
      in case saveArchive st mergedArticles of
           (Inr u, st') \<Rightarrow> (Inr mergedArticles, st')
         | (Inl e, st') \<Rightarrow> (Inl e, st'))"

definition fetchMarketNews :: "platform \<Rightarrow> network \<Rightarrow> storage \<Rightarrow> (error + article list) \<times> storage" where
  \<comment> \<open>The whole function: the body, and on an exception lines 178-183, which read the
      archive again with no \<^verbatim>\<open>try\<close> around the read.\<close>
  "fetchMarketNews p net st =
     (case tryBody p net st of
        (Inr xs, st') \<Rightarrow> (Inr xs, st')
      | (Inl e, st') \<Rightarrow> (readArchive st', st'))"

subsection \<open>Inputs of any shape\<close>

text \<open>
  What \<^verbatim>\<open>res.json()\<close> and \<^verbatim>\<open>JSON.parse\<close> return is typed \<^verbatim>\<open>any\<close>, and three places
  of the loop stand outside every per-source \<^verbatim>\<open>catch\<close>: \<^verbatim>\<open>items.forEach\<close> (line 101),
  the callback of lines 102-137, and \<^verbatim>\<open>archivedArticles.forEach\<close> (line 155). The
  definitions below are the function on such inputs.
  \<^item> \<open>NotAnArray\<close> is an \<^verbatim>\<open>items\<close> that is truthy and not an array: it has no
    \<^verbatim>\<open>forEach\<close>, and line 101 throws \<^verbatim>\<open>TypeError\<close>. A falsy \<^verbatim>\<open>items\<close> is replaced by
    the empty array (\<open>NoItems\<close>).
  \<^item> \<open>Unshaped\<close> is an item on which the callback throws \<^verbatim>\<open>TypeError\<close>: \<^verbatim>\<open>null\<close>
    (line 103 reads a property of it), an object whose \<^verbatim>\<open>description\<close> is truthy and
    not a string (it has no \<^verbatim>\<open>match\<close> and no \<^verbatim>\<open>replace\<close>, lines 106 and 111), or an
    object whose \<^verbatim>\<open>thumbnail\<close> is a number, \<^verbatim>\<open>true\<close> or a plain object (it has no
    \<^verbatim>\<open>includes\<close>, line 118). \<open>Shaped\<close> is an item of the contract's shape.
  \<^item> \<open>AnyMalformedJson\<close> is a body that does not parse, or the body \<^verbatim>\<open>null\<close>, on which
    the \<^verbatim>\<open>then\<close> of line 92 throws into the \<^verbatim>\<open>catch\<close> of line 93. A \<^verbatim>\<open>status\<close> that
    is not a string is a missing one: it is not \<^verbatim>\<open>'ok'\<close>.
  \<^item> \<open>NotArticleList\<close> is an archive text that parses to a value on which line 155
    throws \<^verbatim>\<open>TypeError\<close>: a value that is not an array (\<^verbatim>\<open>null\<close>, a number, a string,
    a boolean, an object), or an array with a \<^verbatim>\<open>null\<close> in it. The handler returns that
    value as it is: \<open>NotArticles\<close>.
  An exception of the loop leaves the storage as it was: nothing has been written yet.
\<close>

datatype item_value = Shaped raw_item | Unshaped

datatype items_value = NoItems | ItemArray "item_value list" | NotAnArray

datatype any_response =
    AnyNetworkError
  | AnyMalformedJson
  | AnyBody "string option" items_value

type_synonym any_network = "string \<Rightarrow> any_response"

type_synonym any_result = "string option \<times> items_value \<times> feed_source"

datatype any_slot = AnyAbsent | AnyCorrupt | AnyStored "article list" | NotArticleList

datatype returned = Articles "article list" | NotArticles

record any_storage =
  any_slot :: any_slot
  any_quota :: "article list \<Rightarrow> bool"
  any_writes :: "article list list"

definition fetchFeedAny :: "any_network \<Rightarrow> feed_source \<Rightarrow> any_result" where
  \<comment> \<open>Lines 90-93; \<^verbatim>\<open>data.items || []\<close> keeps every truthy value.\<close>
  "fetchFeedAny net src =
     (case net (feed_url src) of
        AnyNetworkError \<Rightarrow> (Some ''error'', ItemArray [], src)
      | AnyMalformedJson \<Rightarrow> (Some ''error'', ItemArray [], src)
      | AnyBody status items \<Rightarrow>
          (status, (case items of NoItems \<Rightarrow> ItemArray [] | ItemArray l \<Rightarrow> ItemArray l
                    | NotAnArray \<Rightarrow> NotAnArray), src))"

fun forEachItem ::
  "platform \<Rightarrow> feed_source \<Rightarrow> article list \<Rightarrow> item_value list \<Rightarrow> error + article list" where
  \<comment> \<open>\<^verbatim>\<open>items.forEach\<close> on an array, lines 101-138: the first item on which the callback
      throws ends the loop.\<close>
  "forEachItem p config fresh [] = Inr fresh"
| "forEachItem p config fresh (Unshaped # rest) = Inl TypeError"
| "forEachItem p config fresh (Shaped item # rest) =
     forEachItem p config (fresh @ [normalise p config item]) rest"

definition pushItemsAny :: "platform \<Rightarrow> article list \<Rightarrow> any_result \<Rightarrow> error + article list" where
  \<comment> \<open>Lines 99-140: one round of \<^verbatim>\<open>results.forEach\<close>.\<close>
  "pushItemsAny p fresh r =
     (case r of
        (status, items, config) \<Rightarrow>
          if status = Some ''ok''
          then (case items of
                  NoItems \<Rightarrow> Inr fresh
                | ItemArray l \<Rightarrow> forEachItem p config fresh l
                | NotAnArray \<Rightarrow> Inl TypeError)
          else Inr fresh)"

fun forEachResult :: "platform \<Rightarrow> article list \<Rightarrow> any_result list \<Rightarrow> error + article list" where
  \<comment> \<open>\<^verbatim>\<open>results.forEach\<close>, line 99: an exception of one round ends the loop.\<close>
  "forEachResult p fresh [] = Inr fresh"
| "forEachResult p fresh (r # rs) =
     (case pushItemsAny p fresh r of
        Inl e \<Rightarrow> Inl e
      | Inr fresh' \<Rightarrow> forEachResult p fresh' rs)"

definition collectFreshAny ::
  "platform \<Rightarrow> any_network \<Rightarrow> feed_source list \<Rightarrow> error + article list" where
  "collectFreshAny p net sources = forEachResult p [] (map (fetchFeedAny net) sources)"

definition freshArticlesAny :: "platform \<Rightarrow> any_network \<Rightarrow> error + article list" where
  "freshArticlesAny p net = collectFreshAny p net FEED_SOURCES"

definition readArchiveAny :: "any_storage \<Rightarrow> error + returned" where
  \<comment> \<open>\<^verbatim>\<open>stored ? JSON.parse(stored) : []\<close> after \<^verbatim>\<open>getItem\<close>.\<close>
  "readArchiveAny st =
     (case any_slot st of
        AnyAbsent \<Rightarrow> Inr (Articles [])
      | AnyCorrupt \<Rightarrow> Inl SyntaxError
      | AnyStored xs \<Rightarrow> Inr (Articles xs)
      | NotArticleList \<Rightarrow> Inr NotArticles)"

definition loadArchiveAny :: "any_storage \<Rightarrow> returned" where
  \<comment> \<open>Lines 143-149: whatever parses is taken, a text that does not parse leaves the
      empty list.\<close>
  "loadArchiveAny st = (case readArchiveAny st of Inl e \<Rightarrow> Articles [] | Inr v \<Rightarrow> v)"

definition setItemAny :: "any_storage \<Rightarrow> article list \<Rightarrow> (error + unit) \<times> any_storage" where
  "setItemAny st xs =
     (if any_quota st xs
      then (Inr (), st\<lparr>any_slot := AnyStored xs, any_writes := any_writes st @ [xs]\<rparr>)
      else (Inl QuotaExceededError, st\<lparr>any_writes := any_writes st @ [xs]\<rparr>))"

definition saveArchiveAny :: "any_storage \<Rightarrow> article list \<Rightarrow> (error + unit) \<times> any_storage" where
  \<comment> \<open>Lines 166-174.\<close>
  "saveArchiveAny st mergedArticles =
     (case setItemAny st mergedArticles of
        (Inr u, st1) \<Rightarrow> (Inr (), st1)
      | (Inl e, st1) \<Rightarrow>
          if 200 < length mergedArticles
          then setItemAny st1 (take 200 mergedArticles)
          else (Inr (), st1))"

definition tryBodyAny ::
  "platform \<Rightarrow> any_network \<Rightarrow> any_storage \<Rightarrow> (error + article list) \<times> any_storage" where
  \<comment> \<open>Lines 88-176, the body of the outer \<^verbatim>\<open>try\<close>: the loop over the results, the
      load of the archive, line 155, the merge, the save.\<close>
  "tryBodyAny p net st =
     (case freshArticlesAny p net of
        Inl e \<Rightarrow> (Inl e, st)
      | Inr fresh \<Rightarrow>
          (case loadArchiveAny st of
             NotArticles \<Rightarrow> (Inl TypeError, st)
           | Articles archivedArticles \<Rightarrow>
               (let mergedArticles = mergeArticles (clock p) archivedArticles fresh
                in case saveArchiveAny st mergedArticles of
                     (Inr u, st') \<Rightarrow> (Inr mergedArticles, st')
                   | (Inl e, st') \<Rightarrow> (Inl e, st'))))"

definition fetchMarketNewsAny ::
  "platform \<Rightarrow> any_network \<Rightarrow> any_storage \<Rightarrow> (error + returned) \<times> any_storage" where
  \<comment> \<open>The whole function on inputs of any shape.\<close>
  "fetchMarketNewsAny p net st =
     (case tryBodyAny p net st of
        (Inr xs, st') \<Rightarrow> (Inr (Articles xs), st')
      | (Inl e, st') \<Rightarrow> (readArchiveAny st', st'))"

text \<open>
  Inputs of the contract's shape, seen as inputs of any shape.
\<close>

definition anyResponse :: "response \<Rightarrow> any_response" where
  "anyResponse r =
     (case r of
        NetworkError \<Rightarrow> AnyNetworkError
      | MalformedJson \<Rightarrow> AnyMalformedJson
      | Body status items \<Rightarrow>
          AnyBody status (case items of None \<Rightarrow> NoItems | Some l \<Rightarrow> ItemArray (map Shaped l)))"

definition anyNet :: "network \<Rightarrow> any_network" where
  "anyNet net = (\<lambda>u. anyResponse (net u))"

definition anySlot :: "slot \<Rightarrow> any_slot" where
  "anySlot s = (case s of Absent \<Rightarrow> AnyAbsent | Corrupt \<Rightarrow> AnyCorrupt | Stored xs \<Rightarrow> AnyStored xs)"

definition anyStore :: "storage \<Rightarrow> any_storage" where
  "anyStore st = \<lparr>any_slot = anySlot (slot st), any_quota = quota st, any_writes = writes st\<rparr>"

definition anyValue :: "error + article list \<Rightarrow> error + returned" where
  "anyValue v = (case v of Inl e \<Rightarrow> Inl e | Inr xs \<Rightarrow> Inr (Articles xs))"

subsection \<open>Notions used to state the properties\<close>

definition lastWithId :: "string \<Rightarrow> article list \<Rightarrow> article option" where
  \<comment> \<open>The last article of a list that carries the id \<open>k\<close>.\<close>
  "lastWithId k xs = find (\<lambda>a. ident a = k) (rev xs)"

definition keyed :: "articleMap \<Rightarrow> bool" where
  \<comment> \<open>Every entry sits under the id of its article.\<close>
  "keyed m = (\<forall>e \<in> set m. fst e = ident (snd e))"

definition notBefore :: "article \<Rightarrow> article \<Rightarrow> bool" where
  \<comment> \<open>\<^verbatim>\<open>a.publishedAt >= b.publishedAt\<close>, false when either side is \<^verbatim>\<open>NaN\<close>.\<close>
  "notBefore a b =
     (case publishedAt a of
        None \<Rightarrow> False
      | Some x \<Rightarrow> (case publishedAt b of None \<Rightarrow> False | Some y \<Rightarrow> y \<le> x))"

definition failing :: "response \<Rightarrow> bool" where
  \<comment> \<open>A source that failed: network error, malformed payload, or a status other than ok.\<close>
  "failing r =
     (case r of
        NetworkError \<Rightarrow> True
      | MalformedJson \<Rightarrow> True
      | Body status items \<Rightarrow> status \<noteq> Some ''ok'')"

definition itemsOf :: "response \<Rightarrow> raw_item list" where
  \<comment> \<open>The items a reply carries.\<close>
  "itemsOf r =
     (case r of
        NetworkError \<Rightarrow> []
      | MalformedJson \<Rightarrow> []
      | Body status items \<Rightarrow> (case items of None \<Rightarrow> [] | Some l \<Rightarrow> l))"

definition failingAny :: "any_response \<Rightarrow> bool" where
  \<comment> \<open>A source that failed: network error, a payload that does not parse, or a status
      other than ok.\<close>
  "failingAny r =
     (case r of
        AnyNetworkError \<Rightarrow> True
      | AnyMalformedJson \<Rightarrow> True
      | AnyBody status items \<Rightarrow> status \<noteq> Some ''ok'')"

definition misshapen :: "any_response \<Rightarrow> bool" where
  \<comment> \<open>A body with status ok on which the loop throws.\<close>
  "misshapen r =
     (case r of
        AnyNetworkError \<Rightarrow> False
      | AnyMalformedJson \<Rightarrow> False
      | AnyBody status items \<Rightarrow>
          status = Some ''ok'' \<and>
          (case items of
             NoItems \<Rightarrow> False
           | ItemArray l \<Rightarrow> Unshaped \<in> set l
           | NotAnArray \<Rightarrow> True))"

fun shapedItems :: "item_value list \<Rightarrow> raw_item list" where
  "shapedItems [] = []"
| "shapedItems (Shaped item # rest) = item # shapedItems rest"
| "shapedItems (Unshaped # rest) = shapedItems rest"

definition itemsOfAny :: "any_response \<Rightarrow> raw_item list" where
  \<comment> \<open>The items of the contract's shape that a reply carries.\<close>
  "itemsOfAny r =
     (case r of
        AnyNetworkError \<Rightarrow> []
      | AnyMalformedJson \<Rightarrow> []
      | AnyBody status items \<Rightarrow>
          (case items of NoItems \<Rightarrow> [] | ItemArray l \<Rightarrow> shapedItems l | NotAnArray \<Rightarrow> []))"

definition successfulItems :: "platform \<Rightarrow> any_network \<Rightarrow> feed_source list \<Rightarrow> article list" where
  \<comment> \<open>The normalised items of every source that did not fail, in the order of the
      sources.\<close>
  "successfulItems p net sources =
     concat (map (\<lambda>src. map (normalise p src) (itemsOfAny (net (feed_url src))))
                 (filter (\<lambda>src. \<not> failingAny (net (feed_url src))) sources))"

definition healAny :: "any_network \<Rightarrow> any_network" where
  \<comment> \<open>The network in which every failing source answers ok with no items instead.\<close>
  "healAny net = (\<lambda>u. if failingAny (net u) then AnyBody (Some ''ok'') (ItemArray []) else net u)"

definition archivedOf :: "any_storage \<Rightarrow> article list" where
  \<comment> \<open>The archived articles that enter the merge.\<close>
  "archivedOf st = (case loadArchiveAny st of Articles xs \<Rightarrow> xs | NotArticles \<Rightarrow> [])"

definition archiveWithin :: "int \<Rightarrow> storage \<Rightarrow> bool" where
  \<comment> \<open>Every article of the archive, if there is one, is newer than the cutoff.\<close>
  "archiveWithin cutoff st =
     (case slot st of
        Absent \<Rightarrow> True
      | Corrupt \<Rightarrow> True
      | Stored ys \<Rightarrow> list_all (retained cutoff) ys)"

definition archiveSorted :: "storage \<Rightarrow> bool" where
  \<comment> \<open>The archive, if there is one, is in descending order of \<^verbatim>\<open>publishedAt\<close>.\<close>
  "archiveSorted st =
     (case slot st of
        Absent \<Rightarrow> True
      | Corrupt \<Rightarrow> True
      | Stored ys \<Rightarrow> sorted_wrt notBefore ys)"

subsection \<open>Concrete inputs\<close>

definition samplePlatform :: platform where
  \<comment> \<open>A browser on 12 March 2024, 12:00 UTC, that parses the two dates used below.\<close>
  "samplePlatform =
     \<lparr>dateParse = (\<lambda>s. if s = ''2024-03-12T10:00:00Z'' then Some 1710237600000
                       else if s = ''2024-03-11T09:30:00Z'' then Some 1710149400000
                       else None),
      clock = 1710244800000,
      localDay = (\<lambda>t. (12, 2, 2024)),
      toLocaleTimeString = (\<lambda>t. ''10:00''),
      toLocaleDateString = (\<lambda>t. ''Mar 12'')\<rparr>"

definition scenarioItem :: raw_item where
  "scenarioItem =
     \<lparr>title = Some ''EUR/USD soars on hawkish Fed'',
      description = Some ''<p>Markets rallied &nbsp;today</p>'',
      content = None,
      pubDate = Some ''2024-03-12T10:00:00Z'',
      link = Some ''https://x.com/a'',
      guid = None, thumbnail = None, enclosure_link = None, item_author = None\<rparr>"

definition forexLive :: feed_source where
  "forexLive = \<lparr>feed_url = ''https://www.forexlive.com/feed'', feed_category = ''Sentiment'',
     sourceName = ''ForexLive'', priority = 1\<rparr>"

definition scenarioNet :: network where
  \<comment> \<open>The first source answers with the scenario's item, the others are unreachable.\<close>
  "scenarioNet u =
     (if u = ''https://www.forexlive.com/feed''
      then Body (Some ''ok'') (Some [scenarioItem]) else NetworkError)"

definition coinItem :: raw_item where
  "coinItem =
     \<lparr>title = Some ''Bitcoin steady'',
      description = None, content = None,
      pubDate = Some ''2024-03-11T09:30:00Z'',
      link = Some ''https://x.com/b'',
      guid = Some ''b-1'', thumbnail = Some ''https://x.com/b.png'',
      enclosure_link = None, item_author = Some ''Desk''\<rparr>"

definition coinTelegraph :: feed_source where
  "coinTelegraph = \<lparr>feed_url = ''https://cointelegraph.com/rss'', feed_category = ''Crypto'',
     sourceName = ''CoinTelegraph'', priority = 4\<rparr>"

definition isolationNet :: network where
  \<comment> \<open>Source 1 and source 4 answer, source 2 is unreachable, source 3 sends malformed
      JSON.\<close>
  "isolationNet u =
     (if u = ''https://www.forexlive.com/feed'' then Body (Some ''ok'') (Some [scenarioItem])
      else if u = ''https://www.fxstreet.com/rss/news'' then NetworkError
      else if u = ''https://cointelegraph.com/rss'' then Body (Some ''ok'') (Some [coinItem])
      else MalformedJson)"

definition openStore :: storage where
  \<comment> \<open>No archive yet, and room for every write.\<close>
  "openStore = \<lparr>slot = Absent, quota = (\<lambda>xs. True), writes = []\<rparr>"

definition mkArticle :: "string \<Rightarrow> string \<Rightarrow> int option \<Rightarrow> article" where
  \<comment> \<open>An archived article with the given id, headline and time.\<close>
  "mkArticle i h t =
     \<lparr>ident = i, headline = Some h, summary = [], category = ''Markets'',
      publishedAt = t, timestamp = ''Mar 12'', author = ''Desk'',
      imageUrl = None, url = None, fullContent = None,
      isBreaking = None, sentiment = None\<rparr>"

definition dupFirst :: article where
  "dupFirst = mkArticle ''A'' ''first copy'' (Some 1710237600000)"

definition dupSecond :: article where
  "dupSecond = mkArticle ''A'' ''second copy'' (Some 1710237600000)"

definition keptOld :: article where
  "keptOld = mkArticle ''K'' ''kept'' (Some 1710230000000)"

definition staleCopy :: article where
  "staleCopy = mkArticle ''R'' ''before the update'' (Some 1710230000000)"

definition freshCopy :: article where
  "freshCopy = mkArticle ''R'' ''after the update'' (Some 1710237600000)"

definition bulkItem :: "nat \<Rightarrow> raw_item" where
  \<comment> \<open>An item of a long feed; the number makes its guid.\<close>
  "bulkItem n =
     \<lparr>title = Some ''Market update'',
      description = None, content = None,
      pubDate = Some ''2024-03-12T10:00:00Z'',
      link = None, guid = Some [char_of n],
      thumbnail = Some ''https://x.com/u.png'',
      enclosure_link = None, item_author = None\<rparr>"

definition bulkNet :: network where
  \<comment> \<open>The first source answers with 201 items of distinct guids, the others are
      unreachable.\<close>
  "bulkNet u =
     (if u = ''https://www.forexlive.com/feed''
      then Body (Some ''ok'') (Some (map bulkItem [1..<202])) else NetworkError)"

definition corruptFullStore :: storage where
  \<comment> \<open>An unreadable archive in a storage that takes no write.\<close>
  "corruptFullStore = \<lparr>slot = Corrupt, quota = (\<lambda>xs. False), writes = []\<rparr>"

definition absentFullStore :: storage where
  "absentFullStore = \<lparr>slot = Absent, quota = (\<lambda>xs. False), writes = []\<rparr>"

definition tightStore :: storage where
  \<comment> \<open>A storage with room for 200 articles.\<close>
  "tightStore = \<lparr>slot = Absent, quota = (\<lambda>xs. length xs \<le> 200), writes = []\<rparr>"

definition staleArticle :: article where
  \<comment> \<open>Published ten days before the clock of \<open>samplePlatform\<close>.\<close>
  "staleArticle = mkArticle ''S'' ''ten days old'' (Some 1709380800000)"

definition staleFullStore :: storage where
  "staleFullStore = \<lparr>slot = Stored [staleArticle], quota = (\<lambda>xs. False), writes = []\<rparr>"

definition earlier :: article where
  "earlier = mkArticle ''E'' ''earlier'' (Some 1710230000000)"

definition later :: article where
  "later = mkArticle ''L'' ''later'' (Some 1710237000000)"

definition unsortedFullStore :: storage where
  "unsortedFullStore = \<lparr>slot = Stored [earlier, later], quota = (\<lambda>xs. False), writes = []\<rparr>"

definition goodTwin :: raw_item where
  "goodTwin =
     \<lparr>title = Some ''Gold holds'',
      description = None, content = None,
      pubDate = Some ''2024-03-12T10:00:00Z'',
      link = Some ''https://x.com/gold'', guid = Some ''X-1'',
      thumbnail = Some ''https://x.com/gold.png'',
      enclosure_link = None, item_author = None\<rparr>"

definition badTwin :: raw_item where
  \<comment> \<open>The same guid with a date that does not parse.\<close>
  "badTwin = goodTwin\<lparr>pubDate := Some ''soon''\<rparr>"

definition shadowNet :: network where
  \<comment> \<open>One source carries the good item and, after it, the item with the bad date.\<close>
  "shadowNet u =
     (if u = ''https://www.forexlive.com/feed''
      then Body (Some ''ok'') (Some [goodTwin, badTwin]) else NetworkError)"

definition aloneNet :: network where
  "aloneNet u =
     (if u = ''https://www.forexlive.com/feed''
      then Body (Some ''ok'') (Some [goodTwin]) else NetworkError)"

definition reorderNet :: network where
  \<comment> \<open>The item with the bad date comes first, the good one after it.\<close>
  "reorderNet u =
     (if u = ''https://www.forexlive.com/feed''
      then Body (Some ''ok'') (Some [badTwin, goodTwin]) else NetworkError)"

definition archivedTwin :: article where
  "archivedTwin = mkArticle ''X-1'' ''Gold holds'' (Some 1710230000000)"

definition twinStore :: storage where
  "twinStore = \<lparr>slot = Stored [archivedTwin], quota = (\<lambda>xs. True), writes = []\<rparr>"

definition strayNet :: network where
  \<comment> \<open>One source carries the scenario's item and, after it, an item with a bad date.\<close>
  "strayNet u =
     (if u = ''https://www.forexlive.com/feed''
      then Body (Some ''ok'') (Some [scenarioItem, badTwin]) else NetworkError)"

definition badOnlyNet :: network where
  "badOnlyNet u =
     (if u = ''https://www.forexlive.com/feed''
      then Body (Some ''ok'') (Some [badTwin]) else NetworkError)"

definition crowdedNet :: network where
  \<comment> \<open>One source carries 201 good items and, after them, the item with the bad date.\<close>
  "crowdedNet u =
     (if u = ''https://www.forexlive.com/feed''
      then Body (Some ''ok'') (Some (map bulkItem [1..<202] @ [badTwin])) else NetworkError)"

definition twinFullStore :: storage where
  "twinFullStore = \<lparr>slot = Stored [archivedTwin], quota = (\<lambda>xs. False), writes = []\<rparr>"

definition laterPlatform :: platform where
  \<comment> \<open>The same browser on 21 March 2024: both dates it parses are more than a week old.\<close>
  "laterPlatform = samplePlatform\<lparr>clock := 1711000000000\<rparr>"

definition isolationWire :: any_network where
  \<comment> \<open>Source 1 and source 4 answer, source 2 is unreachable, source 3 sends malformed
      JSON.\<close>
  "isolationWire u =
     (if u = ''https://www.forexlive.com/feed''
      then AnyBody (Some ''ok'') (ItemArray [Shaped scenarioItem])
      else if u = ''https://www.fxstreet.com/rss/news'' then AnyNetworkError
      else if u = ''https://cointelegraph.com/rss''
      then AnyBody (Some ''ok'') (ItemArray [Shaped coinItem])
      else AnyMalformedJson)"

definition openWire :: any_storage where
  \<comment> \<open>No archive yet, and room for every write.\<close>
  "openWire = \<lparr>any_slot = AnyAbsent, any_quota = (\<lambda>xs. True), any_writes = []\<rparr>"

definition oddWire :: any_network where
  \<comment> \<open>As \<open>isolationWire\<close>, but the third source answers ok with an \<^verbatim>\<open>items\<close> that is not
      an array.\<close>
  "oddWire u =
     (if u = ''https://www.forexlive.com/feed''
      then AnyBody (Some ''ok'') (ItemArray [Shaped scenarioItem])
      else if u = ''https://www.fxstreet.com/rss/news'' then AnyNetworkError
      else if u = ''https://cointelegraph.com/rss''
      then AnyBody (Some ''ok'') (ItemArray [Shaped coinItem])
      else AnyBody (Some ''ok'') NotAnArray)"

section \<open>Properties\<close>

subsection \<open>The placeholder hash\<close>

lemma hashLoop_foldl:
  "hashLoop seed i h = foldl spec_hash_step h (map int (drop i seed))"
proof (induction seed i h rule: hashLoop.induct)
  case (1 seed i hash)
  show ?case
  proof (cases "i < length seed")
    case True
    then have "drop i seed = seed ! i # drop (Suc i) seed"
      by (simp add: Cons_nth_drop_Suc)
    with True 1 show ?thesis
      by (subst hashLoop.simps) (simp add: spec_hash_step_def [abs_def] charCodeAt_def)
  next
    case False
    then show ?thesis
      by (subst hashLoop.simps) simp
  qed
qed

lemma palette_size: "length FALLBACK_IMAGES = 7"
  by (simp add: FALLBACK_IMAGES_def)

text \<open>
  The loop adds and subtracts as \<^verbatim>\<open>number\<close> does, which is exact on integers below
  \<open>2^53\<close> in absolute value. A code unit is below \<open>2^16\<close>, so each round moves the
  value by less than \<open>2^32\<close>: a seed shorter than \<open>2^21\<close> characters stays inside
  that range and the integers of the model are the values of the code.
\<close>

lemma shl5_bound: "\<bar>shl5 h\<bar> \<le> 2 ^ 31"
proof -
  have "- (2 ^ 31) \<le> sint (push_bit 5 (word_of_int h :: 32 word))"
    using sint_ge [of "push_bit 5 (word_of_int h :: 32 word)"] by simp
  moreover have "sint (push_bit 5 (word_of_int h :: 32 word)) < 2 ^ 31"
    using sint_lt [of "push_bit 5 (word_of_int h :: 32 word)"] by simp
  ultimately show ?thesis
    by (simp add: shl5_def)
qed

lemma spec_hash_step_bound:
  assumes "c < 65536"
  shows "\<bar>spec_hash_step h (int c)\<bar> \<le> \<bar>h\<bar> + 2 ^ 32"
proof -
  define x where "x = int c"
  from assms have "0 \<le> x" "x < 65536"
    unfolding x_def by linarith+
  with shl5_bound [of h] have "\<bar>x + (shl5 h - h)\<bar> \<le> \<bar>h\<bar> + 2 ^ 32"
    by simp
  then show ?thesis
    by (simp add: spec_hash_step_def x_def)
qed

lemma foldl_hash_bound:
  assumes "\<forall>c \<in> set cs. c < 65536"
  shows "\<bar>foldl spec_hash_step h (map int cs)\<bar> \<le> \<bar>h\<bar> + int (length cs) * 2 ^ 32"
  using assms
proof (induction cs arbitrary: h)
  case Nil
  then show ?case by simp
next
  case (Cons c cs)
  then have "\<bar>foldl spec_hash_step (spec_hash_step h (int c)) (map int cs)\<bar>
      \<le> \<bar>spec_hash_step h (int c)\<bar> + int (length cs) * 2 ^ 32"
    by simp
  moreover have "\<bar>spec_hash_step h (int c)\<bar> \<le> \<bar>h\<bar> + 2 ^ 32"
    by (rule spec_hash_step_bound) (use Cons.prems in simp)
  ultimately show ?case
    by (simp add: algebra_simps)
qed

lemma hash_exact_range:
  assumes "\<forall>c \<in> set seed. c < 65536" and "length seed < 2 ^ 21"
  shows "\<bar>hashLoop seed 0 0\<bar> < 2 ^ 53"
proof -
  from assms(2) have "int (length seed) * 2 ^ 32 < 2 ^ 21 * 2 ^ 32"
    by simp
  moreover have "\<bar>hashLoop seed 0 0\<bar> \<le> int (length seed) * 2 ^ 32"
    using foldl_hash_bound [OF assms(1), of 0] by (simp add: hashLoop_foldl)
  ultimately show ?thesis
    by simp
qed

text \<open>
  Claim C9. For every seed, \<^verbatim>\<open>getFallbackImage\<close> returns the palette entry whose index
  is the absolute value of the rolling hash, reduced modulo the palette size, the hash
  being accumulated per character as \<^verbatim>\<open>char_code + ((hash << 5) - hash)\<close> from 0. The
  index is always inside the palette, so the result is one of the seven images; the
  result is a function of the code units of the seed and of nothing else, so the same
  seed gives the same image in every run.
\<close>

theorem getFallbackImage_is_spec_hash:
  "getFallbackImage seed = FALLBACK_IMAGES ! spec_placeholder_index seed
   \<and> spec_placeholder_index seed < length FALLBACK_IMAGES
   \<and> getFallbackImage seed \<in> set FALLBACK_IMAGES"
proof -
  have h: "hashLoop seed 0 0 = spec_hash seed"
    by (simp add: hashLoop_foldl spec_hash_def)
  have eq: "getFallbackImage seed = FALLBACK_IMAGES ! spec_placeholder_index seed"
    by (simp add: getFallbackImage_def spec_placeholder_index_def h)
  have "\<bar>spec_hash seed\<bar> mod 7 < 7"
    by simp
  then have lt: "spec_placeholder_index seed < length FALLBACK_IMAGES"
    by (simp add: spec_placeholder_index_def palette_size)
  from eq lt show ?thesis
    by simp
qed

subsection \<open>Collecting the fresh articles\<close>

lemma push_each:
  "foldl (\<lambda>acc item. acc @ [f item]) acc items = acc @ map f items"
  by (induction items arbitrary: acc) simp_all

lemma pushItems_ok:
  "pushItems p acc (Some ''ok'', items, config) = acc @ map (normalise p config) items"
  by (simp add: pushItems_def push_each)

lemma pushItems_fetchFeed:
  "pushItems p acc (fetchFeed net src) =
     acc @ (if failing (net (feed_url src)) then []
            else map (normalise p src) (itemsOf (net (feed_url src))))"
  by (cases "net (feed_url src)")
     (simp_all add: pushItems_def fetchFeed_def failing_def itemsOf_def push_each)

lemma foldl_pushItems:
  "foldl (pushItems p) acc (map (fetchFeed net) sources) =
     acc @ concat (map (\<lambda>src. if failing (net (feed_url src)) then []
                              else map (normalise p src) (itemsOf (net (feed_url src))))
                       sources)"
  by (induction sources arbitrary: acc) (simp_all add: pushItems_fetchFeed)

lemma concat_skip:
  "concat (map (\<lambda>x. if P x then [] else f x) xs) = concat (map f (filter (\<lambda>x. \<not> P x) xs))"
  by (induction xs) simp_all

lemma collectFresh_concat:
  "collectFresh p net sources =
     concat (map (\<lambda>src. map (normalise p src) (itemsOf (net (feed_url src))))
                 (filter (\<lambda>src. \<not> failing (net (feed_url src))) sources))"
  by (simp add: collectFresh_def foldl_pushItems concat_skip)

subsection \<open>The normalisation scenario\<close>

lemma scenario_clean: "cleanText ''<p>Markets rallied &nbsp;today</p>'' = ''Markets rallied  today''"
  by (simp add: cleanText_def)

lemma scenario_summary:
  "summary (normalise p src scenarioItem) = ''Markets rallied  today...''"
  by (simp add: normalise_def scenarioItem_def summaryClean_def cleanText_def Let_def)

lemma scenario_breaking:
  "checkForBreakingContext ''EUR/USD soars on hawkish Fed Markets rallied  today...''"
  by code_simp

lemma scenario_sentiment:
  "analyzeSentiment ''EUR/USD soars on hawkish Fed Markets rallied  today...'' = Bullish"
  by code_simp

text \<open>
  Claim C7, as amended. A source with status ok that carries the scenario's single item
  yields exactly one article; its sentiment is Bullish, it is breaking, its id is the
  link, and its summary begins with the description with the tags stripped and the
  entity replaced by a space: \<open>Markets rallied  today\<close>, the entity's space standing
  next to the one already there.
\<close>

theorem scenario_item_normalised:
  assumes "net (feed_url src) = Body (Some ''ok'') (Some [scenarioItem])"
  shows "collectFresh p net [src] = [normalise p src scenarioItem]
       \<and> sentiment (normalise p src scenarioItem) = Some Bullish
       \<and> isBreaking (normalise p src scenarioItem) = Some True
       \<and> take 22 (summary (normalise p src scenarioItem)) = ''Markets rallied  today''
       \<and> cleanText ''<p>Markets rallied &nbsp;today</p>'' = ''Markets rallied  today''
       \<and> ident (normalise p src scenarioItem) = ''https://x.com/a''"
proof (intro conjI)
  show "collectFresh p net [src] = [normalise p src scenarioItem]"
    using assms by (simp add: collectFresh_concat failing_def itemsOf_def)
  show "sentiment (normalise p src scenarioItem) = Some Bullish"
    by (simp add: normalise_def Let_def scenarioItem_def interpolate_def summaryClean_def
          cleanText_def scenario_sentiment)
  show "isBreaking (normalise p src scenarioItem) = Some True"
    by (simp add: normalise_def Let_def scenarioItem_def interpolate_def summaryClean_def
          cleanText_def scenario_breaking)
  show "take 22 (summary (normalise p src scenarioItem)) = ''Markets rallied  today''"
    by (simp add: scenario_summary)
  show "cleanText ''<p>Markets rallied &nbsp;today</p>'' = ''Markets rallied  today''"
    by (rule scenario_clean)
  show "ident (normalise p src scenarioItem) = ''https://x.com/a''"
    by (simp add: normalise_def scenarioItem_def uniqueId_def orElse_def truthy_def Let_def)
qed

theorem scenario_item_normalised_witness:
  "scenarioNet (feed_url forexLive) = Body (Some ''ok'') (Some [scenarioItem])
   \<and> collectFresh samplePlatform scenarioNet [forexLive]
       = [normalise samplePlatform forexLive scenarioItem]
   \<and> sentiment (normalise samplePlatform forexLive scenarioItem) = Some Bullish
   \<and> isBreaking (normalise samplePlatform forexLive scenarioItem) = Some True
   \<and> ident (normalise samplePlatform forexLive scenarioItem) = ''https://x.com/a''"
proof -
  have h: "scenarioNet (feed_url forexLive) = Body (Some ''ok'') (Some [scenarioItem])"
    by (simp add: scenarioNet_def forexLive_def)
  show ?thesis
    using h scenario_item_normalised [where net = scenarioNet and src = forexLive
        and p = samplePlatform]
    by simp
qed

text \<open>
  The claim as written fails on the summary: the code leaves both spaces and ends the
  summary with the marker.
\<close>

theorem scenario_summary_counterexample:
  "map summary (freshArticles samplePlatform scenarioNet) = [''Markets rallied  today...'']
   \<and> ''Markets rallied  today...'' \<noteq> ''Markets rallied today''"
  by (simp add: freshArticles_def collectFresh_concat FEED_SOURCES_def scenarioNet_def
        failing_def itemsOf_def scenario_summary)

subsection \<open>The id-keyed map\<close>

lemma lastWithId_Nil [simp]: "lastWithId k [] = None"
  by (simp add: lastWithId_def)

lemma find_snoc:
  "find P (xs @ [x]) =
     (case find P xs of Some a \<Rightarrow> Some a | None \<Rightarrow> if P x then Some x else None)"
  by (induction xs) auto

lemma lastWithId_Cons:
  "lastWithId k (x # xs) =
     (case lastWithId k xs of
        Some a \<Rightarrow> Some a
      | None \<Rightarrow> if ident x = k then Some x else None)"
  by (simp add: lastWithId_def find_snoc)

lemma lastWithId_None_iff: "lastWithId k xs = None \<longleftrightarrow> k \<notin> ident ` set xs"
  by (auto simp: lastWithId_def find_None_iff)

lemma lastWithId_Some: "lastWithId k xs = Some a \<Longrightarrow> a \<in> set xs \<and> ident a = k"
  by (induction xs) (auto simp: lastWithId_Cons split: option.splits if_splits)

lemma lastWithId_distinct:
  "distinct (map ident xs) \<Longrightarrow> a \<in> set xs \<Longrightarrow> lastWithId (ident a) xs = Some a"
proof (induction xs)
  case Nil
  then show ?case by simp
next
  case (Cons x xs)
  show ?case
  proof (cases "a \<in> set xs")
    case True
    with Cons show ?thesis
      by (simp add: lastWithId_Cons)
  next
    case False
    with Cons.prems have ax: "a = x"
      by simp
    from Cons.prems have "ident x \<notin> ident ` set xs"
      by simp
    then have "lastWithId (ident x) xs = None"
      by (simp add: lastWithId_None_iff)
    with ax show ?thesis
      by (simp add: lastWithId_Cons)
  qed
qed

lemma map_of_mapSet: "map_of (mapSet k v m) = (map_of m)(k \<mapsto> v)"
  by (induction k v m rule: mapSet.induct) auto

lemma keys_mapSet:
  "map fst (mapSet k v m) = (if k \<in> fst ` set m then map fst m else map fst m @ [k])"
  by (induction k v m rule: mapSet.induct) auto

lemma distinct_mapSet: "distinct (map fst m) \<Longrightarrow> distinct (map fst (mapSet k v m))"
  by (simp add: keys_mapSet)

lemma set_mapSet: "set (mapSet k v m) \<subseteq> insert (k, v) (set m)"
  by (induction k v m rule: mapSet.induct) auto

lemma keyed_mapSet: "keyed m \<Longrightarrow> keyed (mapSet (ident a) a m)"
  using set_mapSet [of "ident a" a m] by (auto simp: keyed_def)

lemma setAll_Nil [simp]: "setAll [] m = m"
  by (simp add: setAll_def)

lemma setAll_Cons [simp]: "setAll (x # xs) m = setAll xs (mapSet (ident x) x m)"
  by (simp add: setAll_def)

lemma distinct_setAll: "distinct (map fst m) \<Longrightarrow> distinct (map fst (setAll xs m))"
  by (induction xs arbitrary: m) (simp_all add: distinct_mapSet)

lemma keyed_setAll: "keyed m \<Longrightarrow> keyed (setAll xs m)"
  by (induction xs arbitrary: m) (simp_all add: keyed_mapSet)

lemma map_of_setAll:
  "map_of (setAll xs m) k =
     (case lastWithId k xs of Some a \<Rightarrow> Some a | None \<Rightarrow> map_of m k)"
proof (induction xs arbitrary: m)
  case Nil
  then show ?case by simp
next
  case (Cons x xs)
  show ?case
    by (simp add: Cons.IH map_of_mapSet lastWithId_Cons split: option.split)
qed

lemma in_mapValues_iff:
  assumes "distinct (map fst m)" and "keyed m"
  shows "a \<in> set (mapValues m) \<longleftrightarrow> map_of m (ident a) = Some a"
proof
  assume "a \<in> set (mapValues m)"
  then obtain e where e: "e \<in> set m" "snd e = a"
    by (auto simp: mapValues_def)
  with assms(2) have "fst e = ident a"
    by (auto simp: keyed_def)
  with e have "(ident a, a) \<in> set m"
    by (metis prod.collapse)
  with assms(1) show "map_of m (ident a) = Some a"
    by simp
next
  assume "map_of m (ident a) = Some a"
  then have "(ident a, a) \<in> set m"
    by (rule map_of_SomeD)
  then show "a \<in> set (mapValues m)"
    by (force simp: mapValues_def)
qed

lemma map_ident_mapValues: "keyed m \<Longrightarrow> map ident (mapValues m) = map fst m"
  by (simp add: mapValues_def keyed_def)

lemma buildMap_distinct: "distinct (map fst (buildMap archived fresh))"
  by (simp add: buildMap_def distinct_setAll)

lemma buildMap_keyed: "keyed (buildMap archived fresh)"
  unfolding buildMap_def by (intro keyed_setAll) (simp add: keyed_def)

lemma map_of_buildMap:
  "map_of (buildMap archived fresh) k =
     (case lastWithId k fresh of Some a \<Rightarrow> Some a | None \<Rightarrow> lastWithId k archived)"
  by (simp add: buildMap_def map_of_setAll split: option.split)

subsection \<open>The merged list\<close>

lemma mergeArticles_alt:
  "mergeArticles now archived fresh =
     sort_key (\<lambda>a. - millis a)
       (filter (retained (now - ONE_WEEK_MS)) (mapValues (buildMap archived fresh)))"
  by (simp add: mergeArticles_def Let_def)

lemma in_merge_iff:
  "a \<in> set (mergeArticles now archived fresh) \<longleftrightarrow>
     retained (now - ONE_WEEK_MS) a \<and>
     (case lastWithId (ident a) fresh of
        Some f \<Rightarrow> f = a
      | None \<Rightarrow> lastWithId (ident a) archived = Some a)"
  by (auto simp: mergeArticles_alt in_mapValues_iff buildMap_distinct buildMap_keyed
        map_of_buildMap split: option.splits)

lemma distinct_ids_merge: "distinct (map ident (mergeArticles now archived fresh))"
proof -
  let ?vs = "mapValues (buildMap archived fresh)"
  have "distinct (map ident ?vs)"
    by (simp add: map_ident_mapValues buildMap_keyed buildMap_distinct)
  then have "distinct (map ident (filter (retained (now - ONE_WEEK_MS)) ?vs))"
    by (rule distinct_map_filter)
  then show ?thesis
    by (simp add: mergeArticles_alt distinct_map)
qed

lemma merge_retained:
  "a \<in> set (mergeArticles now archived fresh) \<Longrightarrow> retained (now - ONE_WEEK_MS) a"
  by (simp add: in_merge_iff)

lemma sorted_merge: "sorted_wrt notBefore (mergeArticles now archived fresh)"
proof -
  let ?m = "mergeArticles now archived fresh"
  have "sorted (map (\<lambda>a. - millis a) ?m)"
    by (simp add: mergeArticles_alt sorted_sort_key)
  then have "sorted_wrt (\<lambda>a b. - millis a \<le> - millis b) ?m"
    by (simp add: sorted_map)
  moreover have "\<And>a b. a \<in> set ?m \<Longrightarrow> b \<in> set ?m \<Longrightarrow> - millis a \<le> - millis b
      \<Longrightarrow> notBefore a b"
    by (auto dest!: merge_retained simp: retained_def notBefore_def millis_def
          split: option.splits)
  ultimately show ?thesis
    by (rule sorted_wrt_mono_rel [rotated])
qed

lemma merge_length_ge:
  assumes "distinct (map ident fresh)"
    and "\<forall>a \<in> set fresh. retained (now - ONE_WEEK_MS) a"
  shows "length fresh \<le> length (mergeArticles now archived fresh)"
proof -
  have "set fresh \<subseteq> set (mergeArticles now archived fresh)"
    using assms by (auto simp: in_merge_iff lastWithId_distinct)
  then have "card (set fresh) \<le> card (set (mergeArticles now archived fresh))"
    by (simp add: card_mono)
  moreover have "card (set fresh) = length fresh"
    using assms(1) by (simp add: distinct_card distinct_map)
  moreover have "card (set (mergeArticles now archived fresh))
      \<le> length (mergeArticles now archived fresh)"
    by (rule card_length)
  ultimately show ?thesis
    by simp
qed

text \<open>
  Claim C4, as amended. For every archived list and fresh list: no two articles of the
  merged list share an id; a merged article whose id occurs in the fresh list is the
  last fresh article with that id, and that last fresh article is in the merged list
  when it passes the retention filter; an archived article whose id is absent from the
  fresh list is in the merged list when it passes the retention filter and is the last
  archived article with its id, which every archived article is when the archive has
  no duplicate ids.
\<close>

theorem merge_semantics:
  "distinct (map ident (mergeArticles now archived fresh))
   \<and> (\<forall>m \<in> set (mergeArticles now archived fresh).
        ident m \<in> ident ` set fresh \<longrightarrow> lastWithId (ident m) fresh = Some m)
   \<and> (\<forall>f k. lastWithId k fresh = Some f \<and> retained (now - ONE_WEEK_MS) f
        \<longrightarrow> f \<in> set (mergeArticles now archived fresh))
   \<and> (\<forall>a \<in> set archived.
        ident a \<notin> ident ` set fresh \<and> retained (now - ONE_WEEK_MS) a
        \<and> lastWithId (ident a) archived = Some a
        \<longrightarrow> a \<in> set (mergeArticles now archived fresh))
   \<and> (distinct (map ident archived) \<longrightarrow>
        (\<forall>a \<in> set archived.
           ident a \<notin> ident ` set fresh \<and> retained (now - ONE_WEEK_MS) a
           \<longrightarrow> a \<in> set (mergeArticles now archived fresh)))"
proof (intro conjI)
  show "distinct (map ident (mergeArticles now archived fresh))"
    by (rule distinct_ids_merge)
  show "\<forall>m \<in> set (mergeArticles now archived fresh).
        ident m \<in> ident ` set fresh \<longrightarrow> lastWithId (ident m) fresh = Some m"
  proof (intro ballI impI)
    fix m
    assume m: "m \<in> set (mergeArticles now archived fresh)"
      and "ident m \<in> ident ` set fresh"
    then have "lastWithId (ident m) fresh \<noteq> None"
      by (simp add: lastWithId_None_iff)
    with m show "lastWithId (ident m) fresh = Some m"
      by (auto simp: in_merge_iff split: option.splits)
  qed
  show "\<forall>f k. lastWithId k fresh = Some f \<and> retained (now - ONE_WEEK_MS) f
        \<longrightarrow> f \<in> set (mergeArticles now archived fresh)"
  proof (intro allI impI)
    fix f k
    assume a: "lastWithId k fresh = Some f \<and> retained (now - ONE_WEEK_MS) f"
    then have "ident f = k"
      using lastWithId_Some [of k fresh f] by blast
    with a show "f \<in> set (mergeArticles now archived fresh)"
      by (simp add: in_merge_iff)
  qed
  show "\<forall>a \<in> set archived.
        ident a \<notin> ident ` set fresh \<and> retained (now - ONE_WEEK_MS) a
        \<and> lastWithId (ident a) archived = Some a
        \<longrightarrow> a \<in> set (mergeArticles now archived fresh)"
    by (auto simp: in_merge_iff lastWithId_None_iff [symmetric] simp del: not_None_eq)
  show "distinct (map ident archived) \<longrightarrow>
        (\<forall>a \<in> set archived.
           ident a \<notin> ident ` set fresh \<and> retained (now - ONE_WEEK_MS) a
           \<longrightarrow> a \<in> set (mergeArticles now archived fresh))"
    by (auto simp: in_merge_iff lastWithId_None_iff [symmetric] lastWithId_distinct
          simp del: not_None_eq)
qed

lemma sample_merge:
  "mergeArticles 1710244800000 [keptOld, staleCopy] [freshCopy] = [freshCopy, keptOld]"
  by (simp add: mergeArticles_def buildMap_def mapValues_def retained_def millis_def
        ONE_WEEK_MS_def keptOld_def staleCopy_def freshCopy_def mkArticle_def)

theorem merge_semantics_witness:
  "distinct (map ident [keptOld, staleCopy])
   \<and> ident freshCopy \<in> ident ` set [freshCopy]
   \<and> ident keptOld \<notin> ident ` set [freshCopy]
   \<and> retained (1710244800000 - ONE_WEEK_MS) keptOld
   \<and> retained (1710244800000 - ONE_WEEK_MS) freshCopy
   \<and> lastWithId (ident freshCopy) [freshCopy] = Some freshCopy
   \<and> lastWithId (ident keptOld) [keptOld, staleCopy] = Some keptOld
   \<and> freshCopy \<in> set (mergeArticles 1710244800000 [keptOld, staleCopy] [freshCopy])
   \<and> keptOld \<in> set (mergeArticles 1710244800000 [keptOld, staleCopy] [freshCopy])
   \<and> distinct (map ident (mergeArticles 1710244800000 [keptOld, staleCopy] [freshCopy]))"
  using merge_semantics [of 1710244800000 "[keptOld, staleCopy]" "[freshCopy]"]
  by (simp add: sample_merge lastWithId_def retained_def ONE_WEEK_MS_def
        keptOld_def staleCopy_def freshCopy_def mkArticle_def)

text \<open>
  The claim as written fails for an archived list that carries an id twice: the map
  keeps the later copy only, so the earlier one is not preserved although its id is
  absent from the fresh list and it passes the retention filter.
\<close>

theorem duplicate_archive_counterexample:
  "dupFirst \<in> set [dupFirst, dupSecond]
   \<and> ident dupFirst \<notin> ident ` set []
   \<and> retained (1710244800000 - ONE_WEEK_MS) dupFirst
   \<and> mergeArticles 1710244800000 [dupFirst, dupSecond] [] = [dupSecond]
   \<and> dupFirst \<notin> set [dupSecond]"
  by (simp add: mergeArticles_def buildMap_def mapValues_def retained_def millis_def
        ONE_WEEK_MS_def dupFirst_def dupSecond_def mkArticle_def)

subsection \<open>The save and the two ways out of the function\<close>

lemma saveArchive_ok:
  "quota st m \<Longrightarrow>
   saveArchive st m = (Inr (), st\<lparr>slot := Stored m, writes := writes st @ [m]\<rparr>)"
  by (simp add: saveArchive_def setItem_def)

lemma saveArchive_small:
  "\<not> quota st m \<Longrightarrow> length m \<le> 200 \<Longrightarrow>
   saveArchive st m = (Inr (), st\<lparr>writes := writes st @ [m]\<rparr>)"
  by (simp add: saveArchive_def setItem_def)

lemma saveArchive_retry_ok:
  "\<not> quota st m \<Longrightarrow> 200 < length m \<Longrightarrow> quota st (take 200 m) \<Longrightarrow>
   saveArchive st m =
     (Inr (), st\<lparr>slot := Stored (take 200 m), writes := writes st @ [m, take 200 m]\<rparr>)"
  by (simp add: saveArchive_def setItem_def)

lemma saveArchive_retry_fails:
  "\<not> quota st m \<Longrightarrow> 200 < length m \<Longrightarrow> \<not> quota st (take 200 m) \<Longrightarrow>
   saveArchive st m = (Inl QuotaExceededError, st\<lparr>writes := writes st @ [m, take 200 m]\<rparr>)"
  by (simp add: saveArchive_def setItem_def)

lemma tryBody_value:
  "fst (tryBody p net st) = Inr xs \<Longrightarrow> xs = mergedOf p net st"
  by (auto simp: tryBody_def Let_def split: prod.splits sum.splits)

lemma fetch_normal:
  "fst (tryBody p net st) = Inr xs \<Longrightarrow> fst (fetchMarketNews p net st) = Inr xs"
  by (auto simp: fetchMarketNews_def split: prod.splits sum.splits)

lemma fetch_fallback:
  assumes "\<not> quota st (mergedOf p net st)"
    and "200 < length (mergedOf p net st)"
    and "\<not> quota st (take 200 (mergedOf p net st))"
  shows "fetchMarketNews p net st =
     (readArchive st,
      st\<lparr>writes := writes st @ [mergedOf p net st, take 200 (mergedOf p net st)]\<rparr>)"
  using assms
  by (simp add: fetchMarketNews_def tryBody_def Let_def saveArchive_retry_fails readArchive_def)

lemma fetch_saved:
  "quota st (mergedOf p net st) \<Longrightarrow>
   fetchMarketNews p net st =
     (Inr (mergedOf p net st),
      st\<lparr>slot := Stored (mergedOf p net st), writes := writes st @ [mergedOf p net st]\<rparr>)"
  by (simp add: fetchMarketNews_def tryBody_def Let_def saveArchive_ok)

lemma fetch_small:
  "\<not> quota st (mergedOf p net st) \<Longrightarrow> length (mergedOf p net st) \<le> 200 \<Longrightarrow>
   fetchMarketNews p net st =
     (Inr (mergedOf p net st), st\<lparr>writes := writes st @ [mergedOf p net st]\<rparr>)"
  by (simp add: fetchMarketNews_def tryBody_def Let_def saveArchive_small)

lemma fetch_retry_ok:
  "\<not> quota st (mergedOf p net st) \<Longrightarrow> 200 < length (mergedOf p net st) \<Longrightarrow>
   quota st (take 200 (mergedOf p net st)) \<Longrightarrow>
   fetchMarketNews p net st =
     (Inr (mergedOf p net st),
      st\<lparr>slot := Stored (take 200 (mergedOf p net st)),
         writes := writes st @ [mergedOf p net st, take 200 (mergedOf p net st)]\<rparr>)"
  by (simp add: fetchMarketNews_def tryBody_def Let_def saveArchive_retry_ok)

lemma fetch_rejects_iff:
  "fst (fetchMarketNews p net st) = Inl e \<longleftrightarrow>
     e = SyntaxError \<and> slot st = Corrupt \<and> \<not> quota st (mergedOf p net st)
     \<and> 200 < length (mergedOf p net st) \<and> \<not> quota st (take 200 (mergedOf p net st))"
  by (cases "slot st")
     (auto simp: fetchMarketNews_def tryBody_def Let_def saveArchive_def setItem_def
        readArchive_def split: prod.splits sum.splits if_splits)

text \<open>
  The body ends without an exception exactly when the first write is taken, or the
  list is too short for a retry, or the retry is taken; and whatever the run, the
  archive afterwards is the old one, the merged list, or its first 200 articles.
\<close>

lemma tryBody_normal_iff:
  "fst (tryBody p net st) = Inr xs \<longleftrightarrow>
     xs = mergedOf p net st \<and>
     (quota st (mergedOf p net st) \<or> length (mergedOf p net st) \<le> 200
      \<or> quota st (take 200 (mergedOf p net st)))"
  by (auto simp: tryBody_def Let_def saveArchive_def setItem_def
        split: prod.splits sum.splits if_splits)

lemma written_archive:
  "slot (snd (fetchMarketNews p net st)) = slot st
   \<or> slot (snd (fetchMarketNews p net st)) = Stored (mergedOf p net st)
   \<or> slot (snd (fetchMarketNews p net st)) = Stored (take 200 (mergedOf p net st))"
  by (auto simp: fetchMarketNews_def tryBody_def Let_def saveArchive_def setItem_def
        split: prod.splits sum.splits if_splits)

subsection \<open>A feed of 201 items\<close>

lemma bulk_fresh:
  "freshArticles samplePlatform bulkNet =
     map (normalise samplePlatform forexLive) (map bulkItem [1..<202])"
  by (simp add: freshArticles_def collectFresh_concat FEED_SOURCES_def bulkNet_def
        failing_def itemsOf_def forexLive_def)

lemma bulk_ident: "ident (normalise p config (bulkItem n)) = [char_of n]"
  by (simp add: normalise_def Let_def bulkItem_def uniqueId_def orElse_def truthy_def)

lemma bulk_published:
  "publishedAt (normalise samplePlatform config (bulkItem n)) = Some 1710237600000"
  by (simp add: normalise_def Let_def bulkItem_def newDate_def samplePlatform_def)

lemma bulk_distinct: "distinct (map ident (freshArticles samplePlatform bulkNet))"
proof -
  have "inj_on (\<lambda>n. [char_of n :: char]) (set [1..<202])"
    by (rule inj_onI) simp
  then have "distinct (map (\<lambda>n. [char_of n :: char]) [1..<202])"
    by (simp add: distinct_map)
  then show ?thesis
    by (simp add: bulk_fresh bulk_ident comp_def)
qed

lemma bulk_retained:
  "\<forall>a \<in> set (freshArticles samplePlatform bulkNet).
     retained (clock samplePlatform - ONE_WEEK_MS) a"
proof -
  have "clock samplePlatform - ONE_WEEK_MS < 1710237600000"
    by (simp add: samplePlatform_def ONE_WEEK_MS_def)
  then show ?thesis
    by (auto simp: bulk_fresh retained_def bulk_published)
qed

lemma bulk_length: "200 < length (mergedOf samplePlatform bulkNet st)"
proof -
  have "length (freshArticles samplePlatform bulkNet) = 201"
    by (simp add: bulk_fresh)
  moreover have "length (freshArticles samplePlatform bulkNet)
      \<le> length (mergedOf samplePlatform bulkNet st)"
    unfolding mergedOf_def by (rule merge_length_ge [OF bulk_distinct bulk_retained])
  ultimately show ?thesis
    by simp
qed

text \<open>
  Claim C1 fails on the code. With an unreadable archive, a storage that takes no
  write, and a feed of 201 recent items, the first write throws, the retry of line 172
  throws out of the \<^verbatim>\<open>catch\<close> block, the top-level handler runs, and its
  \<^verbatim>\<open>JSON.parse\<close> of line 182, which no \<^verbatim>\<open>try\<close> encloses, throws in turn: the promise
  is rejected instead of resolving to the empty list.
\<close>

theorem fallback_rejects_on_corrupt_archive:
  "fst (fetchMarketNews samplePlatform bulkNet corruptFullStore) = Inl SyntaxError"
proof -
  have "fetchMarketNews samplePlatform bulkNet corruptFullStore =
      (readArchive corruptFullStore,
       corruptFullStore\<lparr>writes := writes corruptFullStore @
          [mergedOf samplePlatform bulkNet corruptFullStore,
           take 200 (mergedOf samplePlatform bulkNet corruptFullStore)]\<rparr>)"
    by (rule fetch_fallback) (simp_all add: bulk_length, simp_all add: corruptFullStore_def)
  then show ?thesis
    by (simp add: readArchive_def corruptFullStore_def)
qed

subsection \<open>Two small runs\<close>

lemma scenario_fresh:
  "freshArticles samplePlatform scenarioNet = [normalise samplePlatform forexLive scenarioItem]"
  by (simp add: freshArticles_def collectFresh_concat FEED_SOURCES_def scenarioNet_def
        failing_def itemsOf_def forexLive_def)

lemma scenario_published:
  "publishedAt (normalise samplePlatform config scenarioItem) = Some 1710237600000"
  by (simp add: normalise_def Let_def scenarioItem_def newDate_def samplePlatform_def)

lemma merge_one:
  "mergeArticles now [] [a] = (if retained (now - ONE_WEEK_MS) a then [a] else [])"
  by (simp add: mergeArticles_def buildMap_def mapValues_def)

lemma scenario_merged:
  assumes "loadArchive st = []"
  shows "mergedOf samplePlatform scenarioNet st
     = [normalise samplePlatform forexLive scenarioItem]"
proof -
  have "clock samplePlatform - ONE_WEEK_MS < 1710237600000"
    by (simp add: samplePlatform_def ONE_WEEK_MS_def)
  then have "retained (clock samplePlatform - ONE_WEEK_MS)
      (normalise samplePlatform forexLive scenarioItem)"
    by (simp add: retained_def scenario_published)
  then show ?thesis
    by (simp add: mergedOf_def assms scenario_fresh merge_one)
qed

lemma isolation_fresh:
  "freshArticles samplePlatform isolationNet =
     [normalise samplePlatform forexLive scenarioItem,
      normalise samplePlatform coinTelegraph coinItem]"
  by (simp add: freshArticles_def collectFresh_concat FEED_SOURCES_def isolationNet_def
        failing_def itemsOf_def forexLive_def coinTelegraph_def)

lemma coin_published:
  "publishedAt (normalise samplePlatform config coinItem) = Some 1710149400000"
  by (simp add: normalise_def Let_def coinItem_def newDate_def samplePlatform_def)

lemma coin_ident: "ident (normalise p config coinItem) = ''b-1''"
  by (simp add: normalise_def Let_def coinItem_def uniqueId_def orElse_def truthy_def)

lemma scenario_ident: "ident (normalise p config scenarioItem) = ''https://x.com/a''"
  by (simp add: normalise_def Let_def scenarioItem_def uniqueId_def orElse_def truthy_def)

lemma merge_two:
  assumes "ident a \<noteq> ident b"
    and "publishedAt a = Some s" and "publishedAt b = Some t"
    and "t \<le> s" and "now - ONE_WEEK_MS < t"
  shows "mergeArticles now [] [a, b] = [a, b]"
  using assms
  by (simp add: mergeArticles_def buildMap_def mapValues_def retained_def millis_def)

lemma isolation_merged:
  assumes "loadArchive st = []"
  shows "mergedOf samplePlatform isolationNet st =
     [normalise samplePlatform forexLive scenarioItem,
      normalise samplePlatform coinTelegraph coinItem]"
  unfolding mergedOf_def assms isolation_fresh
  by (rule merge_two [OF _ scenario_published coin_published])
     (simp_all add: scenario_ident coin_ident samplePlatform_def ONE_WEEK_MS_def)

lemma loadArchive_Absent: "slot st = Absent \<Longrightarrow> loadArchive st = []"
  by (simp add: loadArchive_def readArchive_def)

lemma tryBody_when_saved:
  "quota st (mergedOf p net st) \<Longrightarrow> fst (tryBody p net st) = Inr (mergedOf p net st)"
  by (simp add: tryBody_def Let_def saveArchive_ok)

subsection \<open>Failing sources, on inputs of any shape\<close>

text \<open>
  On inputs of the contract's shape the function on inputs of any shape is the function
  of the earlier subsections.
\<close>

lemma forEachItem_value:
  "forEachItem p config acc l =
     (if Unshaped \<in> set l then Inl TypeError
      else Inr (acc @ map (normalise p config) (shapedItems l)))"
  by (induction p config acc l rule: forEachItem.induct) simp_all

lemma shapedItems_Shaped: "shapedItems (map Shaped l) = l"
  by (induction l) simp_all

lemma Unshaped_notin_Shaped: "Unshaped \<notin> Shaped ` set l"
  by auto

lemma pushItemsAny_fetchFeedAny:
  "pushItemsAny p acc (fetchFeedAny net src) =
     (if misshapen (net (feed_url src)) then Inl TypeError
      else Inr (acc @ (if failingAny (net (feed_url src)) then []
                       else map (normalise p src) (itemsOfAny (net (feed_url src))))))"
  by (cases "net (feed_url src)")
     (simp_all add: pushItemsAny_def fetchFeedAny_def misshapen_def failingAny_def
        itemsOfAny_def forEachItem_value split: items_value.splits)

lemma successfulItems_Nil: "successfulItems p net [] = []"
  by (simp add: successfulItems_def)

lemma successfulItems_Cons:
  "successfulItems p net (src # sources) =
     (if failingAny (net (feed_url src)) then []
      else map (normalise p src) (itemsOfAny (net (feed_url src))))
     @ successfulItems p net sources"
  by (simp add: successfulItems_def)

lemma forEachResult_value:
  "forEachResult p acc (map (fetchFeedAny net) sources) =
     (if \<exists>src \<in> set sources. misshapen (net (feed_url src)) then Inl TypeError
      else Inr (acc @ successfulItems p net sources))"
proof (induction sources arbitrary: acc)
  case Nil
  show ?case
    by (simp add: successfulItems_Nil)
next
  case (Cons src sources)
  show ?case
    by (simp add: pushItemsAny_fetchFeedAny Cons.IH successfulItems_Cons)
qed

lemma freshArticlesAny_value:
  "freshArticlesAny p net =
     (if \<exists>src \<in> set FEED_SOURCES. misshapen (net (feed_url src)) then Inl TypeError
      else Inr (successfulItems p net FEED_SOURCES))"
  by (simp add: freshArticlesAny_def collectFreshAny_def forEachResult_value)

lemma misshapen_anyNet: "\<not> misshapen (anyNet net u)"
  by (cases "net u")
     (simp_all add: misshapen_def anyNet_def anyResponse_def Unshaped_notin_Shaped
        split: option.splits)

lemma failingAny_anyNet: "failingAny (anyNet net u) = failing (net u)"
  by (cases "net u") (simp_all add: failingAny_def failing_def anyNet_def anyResponse_def)

lemma itemsOfAny_anyNet: "itemsOfAny (anyNet net u) = itemsOf (net u)"
  by (cases "net u")
     (simp_all add: itemsOfAny_def itemsOf_def anyNet_def anyResponse_def shapedItems_Shaped
        split: option.splits)

lemma successfulItems_anyNet:
  "successfulItems p (anyNet net) sources = collectFresh p net sources"
  by (simp add: successfulItems_def collectFresh_concat failingAny_anyNet itemsOfAny_anyNet)

lemma freshArticlesAny_anyNet: "freshArticlesAny p (anyNet net) = Inr (freshArticles p net)"
  by (simp add: freshArticlesAny_value misshapen_anyNet successfulItems_anyNet
        freshArticles_def)

lemma readArchiveAny_anyStore: "readArchiveAny (anyStore st) = anyValue (readArchive st)"
  by (cases "slot st")
     (simp_all add: readArchiveAny_def readArchive_def anyStore_def anySlot_def anyValue_def)

lemma loadArchiveAny_anyStore: "loadArchiveAny (anyStore st) = Articles (loadArchive st)"
  by (cases "slot st")
     (simp_all add: loadArchiveAny_def loadArchive_def readArchiveAny_def readArchive_def
        anyStore_def anySlot_def)

lemma setItemAny_anyStore:
  "setItemAny (anyStore st) xs = (fst (setItem st xs), anyStore (snd (setItem st xs)))"
  by (simp add: setItemAny_def setItem_def anyStore_def anySlot_def)

lemma saveArchiveAny_anyStore:
  "saveArchiveAny (anyStore st) xs =
     (fst (saveArchive st xs), anyStore (snd (saveArchive st xs)))"
  by (simp add: saveArchiveAny_def saveArchive_def setItemAny_anyStore
        split: prod.splits sum.splits)

lemma tryBodyAny_shaped:
  "tryBodyAny p (anyNet net) (anyStore st) =
     (fst (tryBody p net st), anyStore (snd (tryBody p net st)))"
  by (simp add: tryBodyAny_def tryBody_def mergedOf_def Let_def freshArticlesAny_anyNet
        loadArchiveAny_anyStore saveArchiveAny_anyStore split: prod.splits sum.splits)

lemma fetchMarketNewsAny_shaped:
  "fetchMarketNewsAny p (anyNet net) (anyStore st) =
     (anyValue (fst (fetchMarketNews p net st)), anyStore (snd (fetchMarketNews p net st)))"
  by (simp add: fetchMarketNewsAny_def fetchMarketNews_def tryBodyAny_shaped
        readArchiveAny_anyStore anyValue_def split: prod.splits sum.splits)

text \<open>
  When the body of the outer \<^verbatim>\<open>try\<close> ends without an exception: no source answered ok
  with a body on which the loop throws, line 155 found an array of articles, and the
  save went through or was not retried.
\<close>

lemma tryBodyAny_normal_iff:
  "fst (tryBodyAny p net st) = Inr xs \<longleftrightarrow>
     (\<forall>src \<in> set FEED_SOURCES. \<not> misshapen (net (feed_url src))) \<and>
     loadArchiveAny st \<noteq> NotArticles \<and>
     xs = mergeArticles (clock p) (archivedOf st) (successfulItems p net FEED_SOURCES) \<and>
     (any_quota st xs \<or> length xs \<le> 200 \<or> any_quota st (take 200 xs))"
  by (auto simp: tryBodyAny_def freshArticlesAny_value archivedOf_def Let_def
        saveArchiveAny_def setItemAny_def split: returned.splits prod.splits sum.splits
        if_splits)

lemma fetchAny_normal:
  "fst (tryBodyAny p net st) = Inr xs \<Longrightarrow>
   fst (fetchMarketNewsAny p net st) = Inr (Articles xs)"
  by (auto simp: fetchMarketNewsAny_def split: prod.splits sum.splits)

lemma tryBodyAny_throws:
  "loadArchiveAny st = NotArticles \<or> (\<exists>src \<in> set FEED_SOURCES. misshapen (net (feed_url src)))
   \<Longrightarrow> tryBodyAny p net st = (Inl TypeError, st)"
  by (auto simp: tryBodyAny_def freshArticlesAny_value split: returned.splits)

text \<open>
  A body of another shape under status ok is not caught per source: the exception of
  the loop reaches the handler, and what the other sources sent is lost. Here source 1
  and source 4 answer with one item each, source 3 answers ok with an \<^verbatim>\<open>items\<close> that is
  not an array, and the function returns the empty archive.
\<close>

lemma misshapen_body_voids_sources:
  "fetchMarketNewsAny samplePlatform oddWire openWire = (Inr (Articles []), openWire)"
proof -
  have "misshapen (oddWire ''https://feeds.finance.yahoo.com/rss/2.0/headline?s=EURUSD=X,GBPUSD=X,JPY=X,BTC-USD,GC=F'')"
    by (simp add: misshapen_def oddWire_def)
  then have "\<exists>src \<in> set FEED_SOURCES. misshapen (oddWire (feed_url src))"
    by (simp add: FEED_SOURCES_def)
  then have "tryBodyAny samplePlatform oddWire openWire = (Inl TypeError, openWire)"
    by (simp add: tryBodyAny_throws)
  then show ?thesis
    by (simp add: fetchMarketNewsAny_def readArchiveAny_def openWire_def)
qed

text \<open>
  An archive text that parses to something else than an array of articles makes line
  155 throw, and the handler returns that value.
\<close>

lemma odd_archive_returned:
  "any_slot st = NotArticleList \<Longrightarrow> fetchMarketNewsAny p net st = (Inr NotArticles, st)"
proof -
  assume s: "any_slot st = NotArticleList"
  then have "loadArchiveAny st = NotArticles"
    by (simp add: loadArchiveAny_def readArchiveAny_def)
  then have "tryBodyAny p net st = (Inl TypeError, st)"
    by (simp add: tryBodyAny_throws)
  then show ?thesis
    by (simp add: fetchMarketNewsAny_def readArchiveAny_def s)
qed

text \<open>
  A failing source counts for nothing: replacing its reply by an ok reply without items
  changes no round of the loop.
\<close>

lemma pushItemsAny_healAny:
  "pushItemsAny p acc (fetchFeedAny (healAny net) src) = pushItemsAny p acc (fetchFeedAny net src)"
  by (cases "net (feed_url src)")
     (simp_all add: pushItemsAny_def fetchFeedAny_def healAny_def failingAny_def)

lemma forEachResult_healAny:
  "forEachResult p acc (map (fetchFeedAny (healAny net)) sources) =
   forEachResult p acc (map (fetchFeedAny net) sources)"
  by (induction sources arbitrary: acc) (simp_all add: pushItemsAny_healAny split: sum.splits)

lemma fetchMarketNewsAny_healAny:
  "fetchMarketNewsAny p (healAny net) st = fetchMarketNewsAny p net st"
  by (simp add: fetchMarketNewsAny_def tryBodyAny_def freshArticlesAny_def collectFreshAny_def
        forEachResult_healAny)

lemma failing_adds_nothing:
  "failingAny (net (feed_url src)) \<Longrightarrow> pushItemsAny p acc (fetchFeedAny net src) = Inr acc"
  by (cases "net (feed_url src)")
     (simp_all add: pushItemsAny_def fetchFeedAny_def failingAny_def)

lemma merge_from:
  "a \<in> set (mergeArticles now archived fresh) \<Longrightarrow> a \<in> set archived \<or> a \<in> set fresh"
  by (auto simp: in_merge_iff dest: lastWithId_Some split: option.splits)

lemma merge_two_stale:
  assumes "ident a \<noteq> ident b"
    and "\<not> retained (now - ONE_WEEK_MS) a" and "\<not> retained (now - ONE_WEEK_MS) b"
  shows "mergeArticles now [] [a, b] = []"
  using assms
  by (simp add: mergeArticles_def buildMap_def mapValues_def)

lemma isolation_successful:
  "successfulItems p isolationWire FEED_SOURCES =
     [normalise p forexLive scenarioItem, normalise p coinTelegraph coinItem]"
  by (simp add: successfulItems_def FEED_SOURCES_def isolationWire_def failingAny_def
        itemsOfAny_def forexLive_def coinTelegraph_def)

lemma isolation_shaped:
  "\<forall>src \<in> set FEED_SOURCES. \<not> misshapen (isolationWire (feed_url src))"
  by (simp add: FEED_SOURCES_def isolationWire_def misshapen_def)

lemma openWire_archived: "loadArchiveAny openWire = Articles []"
  by (simp add: loadArchiveAny_def readArchiveAny_def openWire_def)

lemma openWire_quota: "any_quota openWire xs"
  by (simp add: openWire_def)

lemma isolation_tryBody:
  "fst (tryBodyAny p isolationWire openWire) =
     Inr (mergeArticles (clock p) [] [normalise p forexLive scenarioItem,
                                      normalise p coinTelegraph coinItem])"
  unfolding tryBodyAny_normal_iff
  by (simp add: isolation_shaped isolation_successful archivedOf_def openWire_archived
        openWire_quota)

lemma later_published:
  "publishedAt (normalise laterPlatform config scenarioItem) = Some 1710237600000"
  "publishedAt (normalise laterPlatform config coinItem) = Some 1710149400000"
  by (simp_all add: normalise_def Let_def scenarioItem_def coinItem_def newDate_def
        laterPlatform_def samplePlatform_def)




subsection \<open>Retention\<close>

lemma fallback_value:
  assumes "fst (fetchMarketNews p net st) = Inr xs"
    and "fst (tryBody p net st) \<noteq> Inr xs"
  shows "readArchive st = Inr xs"
  using assms
  by (auto simp: fetchMarketNews_def tryBody_def Let_def saveArchive_def setItem_def
        readArchive_def split: prod.splits sum.splits if_splits slot.splits)

lemma readArchive_within:
  "readArchive st = Inr xs \<Longrightarrow> archiveWithin cutoff st \<Longrightarrow> \<forall>a \<in> set xs. retained cutoff a"
  by (auto simp: readArchive_def archiveWithin_def list_all_iff split: slot.splits)

lemma readArchive_sorted:
  "readArchive st = Inr xs \<Longrightarrow> archiveSorted st \<Longrightarrow> sorted_wrt notBefore xs"
  by (auto simp: readArchive_def archiveSorted_def split: slot.splits)

text \<open>
  Claim C5, as amended. Every article of the list that \<^verbatim>\<open>fetchMarketNews\<close> returns has
  a \<^verbatim>\<open>publishedAt\<close> that is a number greater than the clock minus
  \<open>7 * 24 * 60 * 60 * 1000\<close>, and no archived article published ten days before the
  clock is in the list, provided the list is the merged one (the body ended without an
  exception) or the archive holds only articles still inside the window.
\<close>

theorem retention_of_returned_list:
  assumes "fst (fetchMarketNews p net st) = Inr xs"
    and "fst (tryBody p net st) = Inr xs \<or> archiveWithin (clock p - ONE_WEEK_MS) st"
  shows "(\<forall>a \<in> set xs. \<exists>t. publishedAt a = Some t \<and> clock p - 7 * 24 * 60 * 60 * 1000 < t)
       \<and> (\<forall>a \<in> set (loadArchive st).
             publishedAt a = Some (clock p - 10 * 24 * 60 * 60 * 1000) \<longrightarrow> a \<notin> set xs)"
proof -
  have r: "\<forall>a \<in> set xs. retained (clock p - ONE_WEEK_MS) a"
  proof (cases "fst (tryBody p net st) = Inr xs")
    case True
    then have "xs = mergeArticles (clock p) (loadArchive st) (freshArticles p net)"
      using tryBody_value [of p net st xs] by (simp add: mergedOf_def)
    then show ?thesis
      by (simp add: merge_retained)
  next
    case False
    with assms(2) have "archiveWithin (clock p - ONE_WEEK_MS) st"
      by simp
    with fallback_value [OF assms(1) False] show ?thesis
      by (rule readArchive_within)
  qed
  have kept: "\<forall>a \<in> set xs. \<exists>t. publishedAt a = Some t \<and> clock p - 7 * 24 * 60 * 60 * 1000 < t"
  proof
    fix a
    assume "a \<in> set xs"
    with r have "retained (clock p - ONE_WEEK_MS) a"
      by simp
    then show "\<exists>t. publishedAt a = Some t \<and> clock p - 7 * 24 * 60 * 60 * 1000 < t"
      by (auto simp: retained_def ONE_WEEK_MS_def split: option.splits)
  qed
  have "\<forall>a \<in> set (loadArchive st).
          publishedAt a = Some (clock p - 10 * 24 * 60 * 60 * 1000) \<longrightarrow> a \<notin> set xs"
    using kept by fastforce
  with kept show ?thesis
    by blast
qed

theorem retention_of_returned_list_witness:
  "fst (fetchMarketNews samplePlatform scenarioNet openStore)
     = Inr [normalise samplePlatform forexLive scenarioItem]
   \<and> fst (tryBody samplePlatform scenarioNet openStore)
     = Inr [normalise samplePlatform forexLive scenarioItem]
   \<and> publishedAt (normalise samplePlatform forexLive scenarioItem) = Some 1710237600000
   \<and> clock samplePlatform - 7 * 24 * 60 * 60 * 1000 < 1710237600000"
proof -
  let ?a = "normalise samplePlatform forexLive scenarioItem"
  have m: "mergedOf samplePlatform scenarioNet openStore = [?a]"
    by (rule scenario_merged) (simp add: loadArchive_Absent openStore_def)
  have q: "quota openStore xs" for xs
    by (simp add: openStore_def)
  have h: "fst (tryBody samplePlatform scenarioNet openStore) = Inr [?a]"
    using tryBody_when_saved [OF q, of samplePlatform scenarioNet] by (simp add: m)
  have f: "fst (fetchMarketNews samplePlatform scenarioNet openStore) = Inr [?a]"
    using fetch_saved [OF q, of samplePlatform scenarioNet] by (simp add: m)
  from retention_of_returned_list [OF f disjI1 [OF h]]
  have "\<exists>t. publishedAt ?a = Some t \<and> clock samplePlatform - 7 * 24 * 60 * 60 * 1000 < t"
    by simp
  then have "clock samplePlatform - 7 * 24 * 60 * 60 * 1000 < 1710237600000"
    by (simp add: scenario_published)
  with f h show ?thesis
    by (simp add: scenario_published)
qed

text \<open>
  The claim as written fails when the top-level handler runs on an archive that has
  aged: the list returned then is the archive as stored, which is not filtered. Here
  the archive holds one article published ten days before the clock, the feed brings
  201 recent items and the storage takes no write.
\<close>

theorem stale_fallback_counterexample:
  "fst (fetchMarketNews samplePlatform bulkNet staleFullStore) = Inr [staleArticle]
   \<and> publishedAt staleArticle = Some (clock samplePlatform - 10 * 24 * 60 * 60 * 1000)
   \<and> \<not> clock samplePlatform - 7 * 24 * 60 * 60 * 1000
        \<le> clock samplePlatform - 10 * 24 * 60 * 60 * 1000"
proof -
  have "fetchMarketNews samplePlatform bulkNet staleFullStore =
      (readArchive staleFullStore,
       staleFullStore\<lparr>writes := writes staleFullStore @
          [mergedOf samplePlatform bulkNet staleFullStore,
           take 200 (mergedOf samplePlatform bulkNet staleFullStore)]\<rparr>)"
    by (rule fetch_fallback) (simp_all add: bulk_length, simp_all add: staleFullStore_def)
  then show ?thesis
    by (simp add: readArchive_def staleFullStore_def staleArticle_def mkArticle_def
          samplePlatform_def)
qed

subsection \<open>Order\<close>

lemma written_archive_sorted:
  "archiveSorted st \<Longrightarrow> archiveSorted (snd (fetchMarketNews p net st))"
  using written_archive [of p net st]
  by (auto simp: archiveSorted_def mergedOf_def sorted_merge sorted_wrt_take split: slot.splits)

text \<open>
  Claim C6, as amended. In the list that \<^verbatim>\<open>fetchMarketNews\<close> returns, each adjacent
  pair \<open>(a, b)\<close> has \<^verbatim>\<open>a.publishedAt >= b.publishedAt\<close>, whatever the order in which the
  sources answered, provided the list is the merged one (the body ended without an
  exception) or the archive was in that order, as every archive this function writes
  is.
\<close>

theorem sorted_returned_list:
  assumes "fst (fetchMarketNews p net st) = Inr xs"
    and "fst (tryBody p net st) = Inr xs \<or> archiveSorted st"
  shows "successively notBefore xs \<and> sorted_wrt notBefore xs"
proof -
  have s: "sorted_wrt notBefore xs"
  proof (cases "fst (tryBody p net st) = Inr xs")
    case True
    then have "xs = mergeArticles (clock p) (loadArchive st) (freshArticles p net)"
      using tryBody_value [of p net st xs] by (simp add: mergedOf_def)
    then show ?thesis
      by (simp add: sorted_merge)
  next
    case False
    with assms(2) have "archiveSorted st"
      by simp
    with fallback_value [OF assms(1) False] show ?thesis
      by (rule readArchive_sorted)
  qed
  then have "successively notBefore xs"
    by (rule successively_if_sorted_wrt)
  with s show ?thesis
    by simp
qed

theorem sorted_returned_list_witness:
  "fst (fetchMarketNews samplePlatform isolationNet openStore)
     = Inr [normalise samplePlatform forexLive scenarioItem,
            normalise samplePlatform coinTelegraph coinItem]
   \<and> fst (tryBody samplePlatform isolationNet openStore)
     = Inr [normalise samplePlatform forexLive scenarioItem,
            normalise samplePlatform coinTelegraph coinItem]
   \<and> notBefore (normalise samplePlatform forexLive scenarioItem)
        (normalise samplePlatform coinTelegraph coinItem)"
proof -
  let ?a = "normalise samplePlatform forexLive scenarioItem"
  let ?b = "normalise samplePlatform coinTelegraph coinItem"
  have m: "mergedOf samplePlatform isolationNet openStore = [?a, ?b]"
    by (rule isolation_merged) (simp add: loadArchive_Absent openStore_def)
  have q: "quota openStore xs" for xs
    by (simp add: openStore_def)
  have h: "fst (tryBody samplePlatform isolationNet openStore) = Inr [?a, ?b]"
    using tryBody_when_saved [OF q, of samplePlatform isolationNet] by (simp add: m)
  have f: "fst (fetchMarketNews samplePlatform isolationNet openStore) = Inr [?a, ?b]"
    using fetch_saved [OF q, of samplePlatform isolationNet] by (simp add: m)
  from sorted_returned_list [OF f disjI1 [OF h]] have "notBefore ?a ?b"
    by simp
  with f h show ?thesis
    by simp
qed

text \<open>
  The claim as written fails when the top-level handler runs on an archive that is not
  in order: the list returned is the archive as stored.
\<close>

theorem unsorted_fallback_counterexample:
  "fst (fetchMarketNews samplePlatform bulkNet unsortedFullStore) = Inr [earlier, later]
   \<and> \<not> notBefore earlier later"
proof -
  have "fetchMarketNews samplePlatform bulkNet unsortedFullStore =
      (readArchive unsortedFullStore,
       unsortedFullStore\<lparr>writes := writes unsortedFullStore @
          [mergedOf samplePlatform bulkNet unsortedFullStore,
           take 200 (mergedOf samplePlatform bulkNet unsortedFullStore)]\<rparr>)"
    by (rule fetch_fallback) (simp_all add: bulk_length, simp_all add: unsortedFullStore_def)
  then show ?thesis
    by (simp add: readArchive_def unsortedFullStore_def notBefore_def earlier_def later_def
          mkArticle_def)
qed

subsection \<open>The save policy\<close>

lemma fetch_writes_retry:
  assumes "\<not> quota st (mergedOf p net st)" and "200 < length (mergedOf p net st)"
  shows "writes (snd (fetchMarketNews p net st)) =
     writes st @ [mergedOf p net st, take 200 (mergedOf p net st)]"
proof (cases "quota st (take 200 (mergedOf p net st))")
  case True
  with assms show ?thesis
    by (simp add: fetch_retry_ok)
next
  case False
  with assms show ?thesis
    by (simp add: fetch_fallback)
qed

lemma sorted_mergedOf: "sorted_wrt notBefore (mergedOf p net st)"
  by (simp add: mergedOf_def sorted_merge)

lemma most_recent_first:
  "sorted_wrt notBefore (take n (mergedOf p net st))
   \<and> (\<forall>a \<in> set (take n (mergedOf p net st)). \<forall>b \<in> set (drop n (mergedOf p net st)).
        notBefore a b)"
proof -
  have "sorted_wrt notBefore (take n (mergedOf p net st) @ drop n (mergedOf p net st))"
    by (simp add: sorted_mergedOf)
  then show ?thesis
    unfolding sorted_wrt_append by blast
qed

text \<open>
  Claim C2, as amended. Let \<open>m\<close> be the merged list. If the first write succeeds there
  is one write and \<open>m\<close> is returned. If it fails and \<open>m\<close> has at most 200 articles
  there is no retry and \<open>m\<close> is returned. If it fails and \<open>m\<close> has more than 200
  articles the save is retried exactly once, with the first 200 articles of \<open>m\<close>,
  which are in descending order and no older than any article left out; if that retry
  succeeds, \<open>m\<close> is returned whole and the archive holds the 200.
\<close>

theorem save_retry_policy:
  assumes "m = mergedOf p net st" and "r = fetchMarketNews p net st"
  shows "(quota st m \<longrightarrow>
            fst r = Inr m \<and> writes (snd r) = writes st @ [m] \<and> slot (snd r) = Stored m)
       \<and> (\<not> quota st m \<and> length m \<le> 200 \<longrightarrow>
            fst r = Inr m \<and> writes (snd r) = writes st @ [m] \<and> slot (snd r) = slot st)
       \<and> (\<not> quota st m \<and> 200 < length m \<longrightarrow>
            writes (snd r) = writes st @ [m, take 200 m]
            \<and> length (take 200 m) = 200
            \<and> sorted_wrt notBefore (take 200 m)
            \<and> (\<forall>a \<in> set (take 200 m). \<forall>b \<in> set (drop 200 m). notBefore a b))
       \<and> (\<not> quota st m \<and> 200 < length m \<and> quota st (take 200 m) \<longrightarrow>
            fst r = Inr m \<and> slot (snd r) = Stored (take 200 m))"
proof (intro conjI impI)
  assume "quota st m"
  then show "fst r = Inr m" "writes (snd r) = writes st @ [m]" "slot (snd r) = Stored m"
    unfolding assms by (simp_all add: fetch_saved)
next
  assume "\<not> quota st m \<and> length m \<le> 200"
  then show "fst r = Inr m" "writes (snd r) = writes st @ [m]" "slot (snd r) = slot st"
    unfolding assms by (simp_all add: fetch_small)
next
  assume a: "\<not> quota st m \<and> 200 < length m"
  then show "writes (snd r) = writes st @ [m, take 200 m]"
    unfolding assms by (simp add: fetch_writes_retry)
  from a show "length (take 200 m) = 200"
    by simp
  show "sorted_wrt notBefore (take 200 m)"
    unfolding assms using most_recent_first [of 200 p net st] by blast
  show "\<forall>a \<in> set (take 200 m). \<forall>b \<in> set (drop 200 m). notBefore a b"
    unfolding assms using most_recent_first [of 200 p net st] by blast
next
  assume "\<not> quota st m \<and> 200 < length m \<and> quota st (take 200 m)"
  then show "fst r = Inr m" "slot (snd r) = Stored (take 200 m)"
    unfolding assms by (simp_all add: fetch_retry_ok)
qed

theorem save_retry_policy_witness:
  "\<not> quota tightStore (mergedOf samplePlatform bulkNet tightStore)
   \<and> 200 < length (mergedOf samplePlatform bulkNet tightStore)
   \<and> quota tightStore (take 200 (mergedOf samplePlatform bulkNet tightStore))
   \<and> fst (fetchMarketNews samplePlatform bulkNet tightStore)
       = Inr (mergedOf samplePlatform bulkNet tightStore)
   \<and> writes (snd (fetchMarketNews samplePlatform bulkNet tightStore))
       = [mergedOf samplePlatform bulkNet tightStore,
          take 200 (mergedOf samplePlatform bulkNet tightStore)]
   \<and> slot (snd (fetchMarketNews samplePlatform bulkNet tightStore))
       = Stored (take 200 (mergedOf samplePlatform bulkNet tightStore))
   \<and> quota openStore (mergedOf samplePlatform scenarioNet openStore)
   \<and> fst (fetchMarketNews samplePlatform scenarioNet openStore)
       = Inr (mergedOf samplePlatform scenarioNet openStore)
   \<and> writes (snd (fetchMarketNews samplePlatform scenarioNet openStore))
       = [mergedOf samplePlatform scenarioNet openStore]
   \<and> \<not> quota absentFullStore (mergedOf samplePlatform isolationNet absentFullStore)
   \<and> length (mergedOf samplePlatform isolationNet absentFullStore) \<le> 200
   \<and> fst (fetchMarketNews samplePlatform isolationNet absentFullStore)
       = Inr (mergedOf samplePlatform isolationNet absentFullStore)
   \<and> writes (snd (fetchMarketNews samplePlatform isolationNet absentFullStore))
       = [mergedOf samplePlatform isolationNet absentFullStore]"
proof -
  have big: "200 < length (mergedOf samplePlatform bulkNet tightStore)"
    by (rule bulk_length)
  then have q1: "\<not> quota tightStore (mergedOf samplePlatform bulkNet tightStore)"
    and q2: "quota tightStore (take 200 (mergedOf samplePlatform bulkNet tightStore))"
    by (simp_all add: tightStore_def)
  have w: "writes tightStore = []" "writes openStore = []" "writes absentFullStore = []"
    by (simp_all add: tightStore_def openStore_def absentFullStore_def)
  have q3: "quota openStore (mergedOf samplePlatform scenarioNet openStore)"
    by (simp add: openStore_def)
  have q4: "\<not> quota absentFullStore (mergedOf samplePlatform isolationNet absentFullStore)"
    by (simp add: absentFullStore_def)
  have "mergedOf samplePlatform isolationNet absentFullStore =
      [normalise samplePlatform forexLive scenarioItem,
       normalise samplePlatform coinTelegraph coinItem]"
    by (rule isolation_merged) (simp add: loadArchive_Absent absentFullStore_def)
  then have small: "length (mergedOf samplePlatform isolationNet absentFullStore) \<le> 200"
    by simp
  from save_retry_policy [OF refl refl, of tightStore samplePlatform bulkNet] big q1 q2 w
  have a: "fst (fetchMarketNews samplePlatform bulkNet tightStore)
       = Inr (mergedOf samplePlatform bulkNet tightStore)"
    "writes (snd (fetchMarketNews samplePlatform bulkNet tightStore))
       = [mergedOf samplePlatform bulkNet tightStore,
          take 200 (mergedOf samplePlatform bulkNet tightStore)]"
    "slot (snd (fetchMarketNews samplePlatform bulkNet tightStore))
       = Stored (take 200 (mergedOf samplePlatform bulkNet tightStore))"
    by simp_all
  from save_retry_policy [OF refl refl, of openStore samplePlatform scenarioNet] q3 w
  have b: "fst (fetchMarketNews samplePlatform scenarioNet openStore)
       = Inr (mergedOf samplePlatform scenarioNet openStore)"
    "writes (snd (fetchMarketNews samplePlatform scenarioNet openStore))
       = [mergedOf samplePlatform scenarioNet openStore]"
    by simp_all
  from save_retry_policy [OF refl refl, of absentFullStore samplePlatform isolationNet]
    q4 small w
  have c: "fst (fetchMarketNews samplePlatform isolationNet absentFullStore)
       = Inr (mergedOf samplePlatform isolationNet absentFullStore)"
    "writes (snd (fetchMarketNews samplePlatform isolationNet absentFullStore))
       = [mergedOf samplePlatform isolationNet absentFullStore]"
    by simp_all
  from big q1 q2 q3 q4 small a b c show ?thesis
    by blast
qed

text \<open>
  The claim as written fails in both halves. A merged list of one article whose write
  fails is not written a second time. A merged list of 201 articles whose write and
  retry both fail is not returned: the exception of the retry reaches the top-level
  handler, which returns the archive, here the empty list.
\<close>

theorem no_retry_counterexample:
  "\<not> quota absentFullStore (mergedOf samplePlatform scenarioNet absentFullStore)
   \<and> mergedOf samplePlatform scenarioNet absentFullStore
       = [normalise samplePlatform forexLive scenarioItem]
   \<and> writes (snd (fetchMarketNews samplePlatform scenarioNet absentFullStore))
       = [[normalise samplePlatform forexLive scenarioItem]]
   \<and> fst (fetchMarketNews samplePlatform bulkNet absentFullStore) = Inr []
   \<and> mergedOf samplePlatform bulkNet absentFullStore \<noteq> []"
proof -
  have q: "\<not> quota absentFullStore xs" for xs
    by (simp add: absentFullStore_def)
  have m: "mergedOf samplePlatform scenarioNet absentFullStore
       = [normalise samplePlatform forexLive scenarioItem]"
    by (rule scenario_merged) (simp add: loadArchive_Absent absentFullStore_def)
  have "fetchMarketNews samplePlatform scenarioNet absentFullStore =
      (Inr (mergedOf samplePlatform scenarioNet absentFullStore),
       absentFullStore\<lparr>writes := writes absentFullStore
          @ [mergedOf samplePlatform scenarioNet absentFullStore]\<rparr>)"
    by (rule fetch_small) (simp_all add: q m)
  moreover have "writes absentFullStore = []"
    by (simp add: absentFullStore_def)
  ultimately have w: "writes (snd (fetchMarketNews samplePlatform scenarioNet absentFullStore))
       = [[normalise samplePlatform forexLive scenarioItem]]"
    by (simp add: m)
  have "fetchMarketNews samplePlatform bulkNet absentFullStore =
      (readArchive absentFullStore,
       absentFullStore\<lparr>writes := writes absentFullStore @
          [mergedOf samplePlatform bulkNet absentFullStore,
           take 200 (mergedOf samplePlatform bulkNet absentFullStore)]\<rparr>)"
    by (rule fetch_fallback) (simp_all add: bulk_length q)
  then have f: "fst (fetchMarketNews samplePlatform bulkNet absentFullStore) = Inr []"
    by (simp add: readArchive_def absentFullStore_def)
  have "200 < length (mergedOf samplePlatform bulkNet absentFullStore)"
    by (rule bulk_length)
  then have n: "mergedOf samplePlatform bulkNet absentFullStore \<noteq> []"
    by auto
  from q m w f n show ?thesis
    by blast
qed

subsection \<open>Dropping one id\<close>

lemma filter_mapSet:
  "filter (\<lambda>e. fst e \<noteq> x) (mapSet k v m) =
     (if k = x then filter (\<lambda>e. fst e \<noteq> x) m
      else mapSet k v (filter (\<lambda>e. fst e \<noteq> x) m))"
  by (induction k v m rule: mapSet.induct) auto

lemma filter_setAll:
  "filter (\<lambda>e. fst e \<noteq> x) (setAll xs m) =
     setAll (filter (\<lambda>a. ident a \<noteq> x) xs) (filter (\<lambda>e. fst e \<noteq> x) m)"
  by (induction xs arbitrary: m) (simp_all add: filter_mapSet)

lemma filter_buildMap:
  "filter (\<lambda>e. fst e \<noteq> x) (buildMap archived fresh) =
     buildMap (filter (\<lambda>a. ident a \<noteq> x) archived) (filter (\<lambda>a. ident a \<noteq> x) fresh)"
  by (simp add: buildMap_def filter_setAll)

lemma filter_mapValues:
  assumes "keyed m"
  shows "filter (\<lambda>a. ident a \<noteq> x) (mapValues m) = mapValues (filter (\<lambda>e. fst e \<noteq> x) m)"
proof -
  have "filter (\<lambda>e. ident (snd e) \<noteq> x) m = filter (\<lambda>e. fst e \<noteq> x) m"
    using assms by (intro filter_cong) (auto simp: keyed_def)
  then show ?thesis
    by (simp add: mapValues_def filter_map comp_def)
qed

lemma filter_merge:
  "filter (\<lambda>a. ident a \<noteq> x) (mergeArticles now archived fresh) =
     mergeArticles now (filter (\<lambda>a. ident a \<noteq> x) archived)
       (filter (\<lambda>a. ident a \<noteq> x) fresh)"
proof -
  let ?P = "\<lambda>a. ident a \<noteq> x"
  let ?R = "retained (now - ONE_WEEK_MS)"
  have "filter ?P (filter ?R (mapValues (buildMap archived fresh)))
      = filter ?R (filter ?P (mapValues (buildMap archived fresh)))"
    by (simp add: conj_commute)
  also have "\<dots> = filter ?R (mapValues (buildMap (filter ?P archived) (filter ?P fresh)))"
    by (simp add: filter_mapValues buildMap_keyed filter_buildMap)
  finally show ?thesis
    by (simp add: mergeArticles_alt filter_sort)
qed

lemma bad_published:
  "newDate p (pubDate item) = None \<Longrightarrow> publishedAt (normalise p config item) = None"
  by (simp add: normalise_def Let_def)

lemma not_retained_NaN: "publishedAt a = None \<Longrightarrow> \<not> retained cutoff a"
  by (simp add: retained_def)

subsection \<open>An item with a bad date\<close>

lemma bad_twin_date: "newDate samplePlatform (pubDate badTwin) = None"
  by (simp add: newDate_def badTwin_def goodTwin_def samplePlatform_def)

lemma twin_ident:
  "ident (normalise p config goodTwin) = ''X-1''"
  "ident (normalise p config badTwin) = ''X-1''"
  by (simp_all add: normalise_def Let_def badTwin_def goodTwin_def uniqueId_def orElse_def
        truthy_def)

lemma good_twin_published:
  "publishedAt (normalise samplePlatform config goodTwin) = Some 1710237600000"
  by (simp add: normalise_def Let_def goodTwin_def newDate_def samplePlatform_def)

lemma good_twin_retained:
  "retained (clock samplePlatform - ONE_WEEK_MS) (normalise samplePlatform config goodTwin)"
proof -
  have "clock samplePlatform - ONE_WEEK_MS < 1710237600000"
    by (simp add: samplePlatform_def ONE_WEEK_MS_def)
  then show ?thesis
    by (simp add: retained_def good_twin_published)
qed

lemma scenario_retained:
  "retained (clock samplePlatform - ONE_WEEK_MS) (normalise samplePlatform config scenarioItem)"
proof -
  have "clock samplePlatform - ONE_WEEK_MS < 1710237600000"
    by (simp add: samplePlatform_def ONE_WEEK_MS_def)
  then show ?thesis
    by (simp add: retained_def scenario_published)
qed

lemma archived_twin_facts:
  "ident archivedTwin = ''X-1''"
  "retained (clock samplePlatform - ONE_WEEK_MS) archivedTwin"
  by (simp_all add: archivedTwin_def mkArticle_def retained_def samplePlatform_def
        ONE_WEEK_MS_def)

lemma merge_shadowed:
  assumes "ident a = ident b" and "publishedAt b = None"
  shows "mergeArticles now [] [a, b] = []"
  using assms by (simp add: mergeArticles_def buildMap_def mapValues_def retained_def)

lemma merge_stray:
  assumes "ident a \<noteq> ident b" and "publishedAt b = None"
    and "retained (now - ONE_WEEK_MS) a"
  shows "mergeArticles now [] [a, b] = [a]"
  using assms by (simp add: mergeArticles_def buildMap_def mapValues_def retained_def)

lemma merge_replaced:
  assumes "ident a = ident b" and "publishedAt b = None"
  shows "mergeArticles now [a] [b] = []"
  using assms by (simp add: mergeArticles_def buildMap_def mapValues_def retained_def)

lemma merge_overwritten:
  assumes "ident a = k" and "ident b = k" and "ident g = k"
    and "retained (now - ONE_WEEK_MS) g"
  shows "mergeArticles now [a] [b, g] = [g]"
  using assms by (simp add: mergeArticles_def buildMap_def mapValues_def)

lemma merge_archive_alone:
  "retained (now - ONE_WEEK_MS) a \<Longrightarrow> mergeArticles now [a] [] = [a]"
  by (simp add: mergeArticles_def buildMap_def mapValues_def)

lemma crowded_fresh:
  "freshArticles samplePlatform crowdedNet =
     freshArticles samplePlatform bulkNet @ [normalise samplePlatform forexLive badTwin]"
  by (simp add: freshArticles_def collectFresh_concat FEED_SOURCES_def crowdedNet_def
        bulkNet_def failing_def itemsOf_def forexLive_def)

lemma lastWithId_snoc:
  "lastWithId k (xs @ [b]) = (if ident b = k then Some b else lastWithId k xs)"
  by (simp add: lastWithId_def)

lemma crowded_length: "200 < length (mergedOf samplePlatform crowdedNet st)"
proof -
  let ?bulk = "freshArticles samplePlatform bulkNet"
  let ?m = "mergedOf samplePlatform crowdedNet st"
  have other: "ident a \<noteq> ''X-1''" if "a \<in> set ?bulk" for a
    using that by (auto simp: bulk_fresh bulk_ident)
  have "set ?bulk \<subseteq> set ?m"
  proof
    fix a
    assume a: "a \<in> set ?bulk"
    then have "lastWithId (ident a) ?bulk = Some a"
      by (rule lastWithId_distinct [OF bulk_distinct])
    with other [OF a] have "lastWithId (ident a) (freshArticles samplePlatform crowdedNet) = Some a"
      by (simp add: crowded_fresh lastWithId_snoc twin_ident)
    with a bulk_retained show "a \<in> set ?m"
      by (simp add: mergedOf_def in_merge_iff)
  qed
  then have "card (set ?bulk) \<le> card (set ?m)"
    by (simp add: card_mono)
  moreover have "card (set ?bulk) = length ?bulk"
    using bulk_distinct by (simp add: distinct_card distinct_map)
  moreover have "card (set ?m) \<le> length ?m"
    by (rule card_length)
  moreover have "length ?bulk = 201"
    by (simp add: bulk_fresh)
  ultimately show ?thesis
    by simp
qed

text \<open>
  Claim C8, as amended. An item whose date is missing or does not parse raises nothing:
  it becomes an article whose \<^verbatim>\<open>publishedAt\<close> is \<^verbatim>\<open>NaN\<close>, and the items before and
  after it in the same source are normalised and pushed as usual. Whenever the body of
  \<^verbatim>\<open>fetchMarketNews\<close> ends without an exception, the list returned does not contain
  that article, and its articles with another id are those, in the same order, that
  the merge yields when the bad article is taken out of the fresh list.
\<close>

theorem bad_date_isolated:
  assumes "newDate p (pubDate item) = None"
    and "fst (tryBody p net st) = Inr xs"
  shows "publishedAt (normalise p config item) = None
       \<and> pushItems p acc (Some ''ok'', pre @ item # post, config) =
           acc @ map (normalise p config) pre @ normalise p config item
             # map (normalise p config) post
       \<and> fst (fetchMarketNews p net st) = Inr xs
       \<and> normalise p config item \<notin> set xs
       \<and> (\<forall>before after.
             freshArticles p net = before @ normalise p config item # after \<longrightarrow>
             filter (\<lambda>a. ident a \<noteq> ident (normalise p config item)) xs =
             filter (\<lambda>a. ident a \<noteq> ident (normalise p config item))
               (mergeArticles (clock p) (loadArchive st) (before @ after)))"
proof (intro conjI)
  have xs: "xs = mergeArticles (clock p) (loadArchive st) (freshArticles p net)"
    using tryBody_value [OF assms(2)] by (simp add: mergedOf_def)
  show nan: "publishedAt (normalise p config item) = None"
    using assms(1) by (rule bad_published)
  show "pushItems p acc (Some ''ok'', pre @ item # post, config) =
           acc @ map (normalise p config) pre @ normalise p config item
             # map (normalise p config) post"
    by (simp add: pushItems_ok)
  show "fst (fetchMarketNews p net st) = Inr xs"
    using assms(2) by (rule fetch_normal)
  show "normalise p config item \<notin> set xs"
    unfolding xs
    using merge_retained [of "normalise p config item" "clock p" "loadArchive st"
        "freshArticles p net"] not_retained_NaN [OF nan]
    by blast
  show "\<forall>before after.
             freshArticles p net = before @ normalise p config item # after \<longrightarrow>
             filter (\<lambda>a. ident a \<noteq> ident (normalise p config item)) xs =
             filter (\<lambda>a. ident a \<noteq> ident (normalise p config item))
               (mergeArticles (clock p) (loadArchive st) (before @ after))"
    by (simp add: xs filter_merge)
qed

theorem bad_date_isolated_witness:
  "newDate samplePlatform (pubDate badTwin) = None
   \<and> fst (tryBody samplePlatform strayNet openStore)
       = Inr [normalise samplePlatform forexLive scenarioItem]
   \<and> freshArticles samplePlatform strayNet =
       [normalise samplePlatform forexLive scenarioItem]
         @ normalise samplePlatform forexLive badTwin # []
   \<and> publishedAt (normalise samplePlatform forexLive badTwin) = None
   \<and> fst (fetchMarketNews samplePlatform strayNet openStore)
       = Inr [normalise samplePlatform forexLive scenarioItem]
   \<and> normalise samplePlatform forexLive badTwin
       \<notin> set [normalise samplePlatform forexLive scenarioItem]"
proof -
  let ?a = "normalise samplePlatform forexLive scenarioItem"
  let ?bad = "normalise samplePlatform forexLive badTwin"
  have f: "freshArticles samplePlatform strayNet = [?a] @ ?bad # []"
    by (simp add: freshArticles_def collectFresh_concat FEED_SOURCES_def strayNet_def
          failing_def itemsOf_def forexLive_def)
  have l: "loadArchive openStore = []"
    by (simp add: loadArchive_Absent openStore_def)
  have "mergeArticles (clock samplePlatform) [] [?a, ?bad] = [?a]"
    by (rule merge_stray)
       (simp_all add: scenario_ident twin_ident bad_published bad_twin_date scenario_retained)
  then have m: "mergedOf samplePlatform strayNet openStore = [?a]"
    by (simp add: mergedOf_def l f)
  have q: "quota openStore xs" for xs
    by (simp add: openStore_def)
  have h: "fst (tryBody samplePlatform strayNet openStore) = Inr [?a]"
    using tryBody_when_saved [OF q, of samplePlatform strayNet] by (simp add: m)
  from bad_date_isolated [OF bad_twin_date h, of forexLive]
  have "publishedAt ?bad = None"
    and "fst (fetchMarketNews samplePlatform strayNet openStore) = Inr [?a]"
    and "?bad \<notin> set [?a]"
    by blast+
  with bad_twin_date h f show ?thesis
    by blast
qed

text \<open>
  The claim as written fails in two ways. A sibling that carries the id of the item
  with the bad date and stands before it is overwritten in the map and lost with it,
  although the sibling alone is returned. And when the retry of the save throws, the
  top-level handler returns the archive, here the empty list, and none of the 201 good
  siblings is returned.
\<close>

theorem same_id_sibling_counterexample:
  "newDate samplePlatform (pubDate badTwin) = None
   \<and> fst (fetchMarketNews samplePlatform shadowNet openStore) = Inr []
   \<and> fst (fetchMarketNews samplePlatform aloneNet openStore)
       = Inr [normalise samplePlatform forexLive goodTwin]
   \<and> fst (fetchMarketNews samplePlatform crowdedNet absentFullStore) = Inr []
   \<and> length (freshArticles samplePlatform crowdedNet) = 202"
proof -
  have f1: "freshArticles samplePlatform shadowNet =
      [normalise samplePlatform forexLive goodTwin, normalise samplePlatform forexLive badTwin]"
    by (simp add: freshArticles_def collectFresh_concat FEED_SOURCES_def shadowNet_def
          failing_def itemsOf_def forexLive_def)
  have f2: "freshArticles samplePlatform aloneNet = [normalise samplePlatform forexLive goodTwin]"
    by (simp add: freshArticles_def collectFresh_concat FEED_SOURCES_def aloneNet_def
          failing_def itemsOf_def forexLive_def)
  have l: "loadArchive openStore = []"
    by (simp add: loadArchive_Absent openStore_def)
  have m1: "mergedOf samplePlatform shadowNet openStore = []"
    unfolding mergedOf_def l f1
    by (rule merge_shadowed) (simp_all add: twin_ident bad_published bad_twin_date)
  have m2: "mergedOf samplePlatform aloneNet openStore
      = [normalise samplePlatform forexLive goodTwin]"
    unfolding mergedOf_def l f2 by (simp add: merge_one good_twin_retained)
  have q: "quota openStore xs" for xs
    by (simp add: openStore_def)
  have r1: "fst (fetchMarketNews samplePlatform shadowNet openStore) = Inr []"
    using fetch_saved [OF q, of samplePlatform shadowNet] by (simp add: m1)
  have r2: "fst (fetchMarketNews samplePlatform aloneNet openStore)
       = Inr [normalise samplePlatform forexLive goodTwin]"
    using fetch_saved [OF q, of samplePlatform aloneNet] by (simp add: m2)
  have "fetchMarketNews samplePlatform crowdedNet absentFullStore =
      (readArchive absentFullStore,
       absentFullStore\<lparr>writes := writes absentFullStore @
          [mergedOf samplePlatform crowdedNet absentFullStore,
           take 200 (mergedOf samplePlatform crowdedNet absentFullStore)]\<rparr>)"
    by (rule fetch_fallback) (simp_all add: crowded_length, simp_all add: absentFullStore_def)
  then have r3: "fst (fetchMarketNews samplePlatform crowdedNet absentFullStore) = Inr []"
    by (simp add: readArchive_def absentFullStore_def)
  have r4: "length (freshArticles samplePlatform crowdedNet) = 202"
    by (simp add: crowded_fresh bulk_fresh)
  from bad_twin_date r1 r2 r3 r4 show ?thesis
    by blast
qed

subsection \<open>A bad date against an archived article\<close>




end
